theory Spec2Isabelle
  imports Main "HOL-Library.Sublist" "HOL-Library.Word"
begin

section \<open>JavaScript strings\<close>

text \<open>
  A JavaScript string is a sequence of UTF-16 code units, and \<open>length\<close> counts code units.
  A code unit is modelled as a natural number (below 65536 in every string the program
  meets); no function of the model depends on that bound. The source's string literals
  that contain CJK text are written as lists of their code units, in hexadecimal; the name
  of each constant says where it is used, and the line of \<^verbatim>\<open>src/server.js\<close> that holds
  the literal is given with it.
\<close>

type_synonym jsstring = "nat list"

definition js :: "string \<Rightarrow> jsstring" where
  "js s = map of_char s"

text \<open>
  \<^verbatim>\<open>Array.prototype.join\<close> on an array of strings.
\<close>

fun join :: "jsstring \<Rightarrow> jsstring list \<Rightarrow> jsstring" where
  "join sep [] = []"
| "join sep [x] = x"
| "join sep (x # y # ys) = x @ sep @ join sep (y # ys)"

text \<open>
  \<^verbatim>\<open>String.prototype.trim\<close> removes the code units of ECMAScript's WhiteSpace and
  LineTerminator productions from both ends: TAB, LF, VT, FF, CR, SPACE, NBSP, U+1680,
  U+2000 to U+200A, U+2028, U+2029, U+202F, U+205F, U+3000 and U+FEFF.
\<close>

definition isWhiteSpace :: "nat \<Rightarrow> bool" where
  "isWhiteSpace c \<longleftrightarrow>
     (9 \<le> c \<and> c \<le> 13) \<or> c = 32 \<or> c = 0xA0 \<or> c = 0x1680 \<or> (0x2000 \<le> c \<and> c \<le> 0x200A) \<or>
     c = 0x2028 \<or> c = 0x2029 \<or> c = 0x202F \<or> c = 0x205F \<or> c = 0x3000 \<or> c = 0xFEFF"

definition trim :: "jsstring \<Rightarrow> jsstring" where
  "trim s = rev (dropWhile isWhiteSpace (rev (dropWhile isWhiteSpace s)))"

text \<open>
  The decimal numeral that a template literal prints for a non-negative integer such as
  \<^verbatim>\<open>text.length\<close>.
\<close>

fun decimal :: "nat \<Rightarrow> jsstring" where
  "decimal n = (if n < 10 then [48 + n] else decimal (n div 10) @ [48 + n mod 10])"

declare decimal.simps [simp del]

text \<open>
  Reading a decimal numeral: \<open>decimal_value\<close> accepts a string only when it is not
  empty, is made of the digits \<open>0\<close> to \<open>9\<close> (code units 48 to 57) and has no leading
  zero unless it is the single digit \<open>0\<close>; it then gives the number the digits stand
  for. It is used only to state that a printed length is exact.
\<close>

definition isDigit :: "nat \<Rightarrow> bool" where
  "isDigit c \<longleftrightarrow> 48 \<le> c \<and> c \<le> 57"

definition digits_value :: "jsstring \<Rightarrow> nat" where
  "digits_value ds = foldl (\<lambda>acc d. 10 * acc + (d - 48)) 0 ds"

definition decimal_value :: "jsstring \<Rightarrow> nat option" where
  "decimal_value ds =
     (if ds \<noteq> [] \<and> list_all isDigit ds \<and> (length ds = 1 \<or> hd ds \<noteq> 48)
      then Some (digits_value ds) else None)"

text \<open>
  \<^verbatim>\<open>String.prototype.toLowerCase\<close>. On a string of ASCII code units it maps \<open>A\<close> to \<open>Z\<close>
  onto \<open>a\<close> to \<open>z\<close> and leaves the rest. On any other string the result is given by the
  Unicode case mapping of the engine, which is a parameter here (\<open>unicodeLower\<close>).
\<close>

definition asciiLower :: "nat \<Rightarrow> nat" where
  "asciiLower c = (if 65 \<le> c \<and> c \<le> 90 then c + 32 else c)"

definition toLowerCase :: "(jsstring \<Rightarrow> jsstring) \<Rightarrow> jsstring \<Rightarrow> jsstring" where
  "toLowerCase unicodeLower s =
     (if list_all (\<lambda>c. c < 128) s then map asciiLower s else unicodeLower s)"

text \<open>
  \<^verbatim>\<open>s.lastIndexOf(c)\<close> for a one-unit search string; \<open>None\<close> stands for \<open>-1\<close>.
\<close>

fun lastIndexOf :: "nat \<Rightarrow> jsstring \<Rightarrow> nat option" where
  "lastIndexOf c [] = None"
| "lastIndexOf c (x # xs) =
     (case lastIndexOf c xs of
        Some i \<Rightarrow> Some (Suc i)
      | None \<Rightarrow> if x = c then Some 0 else None)"

subsection \<open>\<^verbatim>\<open>String.prototype.replaceAll\<close> with a string pattern and a string replacement\<close>

text \<open>
  The replacement string is not inserted as it is: ECMAScript's GetSubstitution expands
  \<open>$$\<close> to \<open>$\<close>, \<open>$&\<close> to the matched text, \<open>$`\<close> to the part of the subject before the
  match and \<open>$'\<close> to the part after it. With a string pattern there are no captures, so
  \<open>$1\<close>, \<open>$<\<close> and a \<open>$\<close> before anything else stay as they are. The code units:
  \<open>$\<close> is 36, \<open>&\<close> is 38, \<open>'\<close> is 39 and the backquote is 96.
\<close>

fun GetSubstitution :: "jsstring \<Rightarrow> jsstring \<Rightarrow> jsstring \<Rightarrow> jsstring \<Rightarrow> jsstring" where
  "GetSubstitution matched pre post [] = []"
| "GetSubstitution matched pre post [c] = [c]"
| "GetSubstitution matched pre post (c # d # r) =
     (if c = 36 \<and> d = 36 then 36 # GetSubstitution matched pre post r
      else if c = 36 \<and> d = 38 then matched @ GetSubstitution matched pre post r
      else if c = 36 \<and> d = 96 then pre @ GetSubstitution matched pre post r
      else if c = 36 \<and> d = 39 then post @ GetSubstitution matched pre post r
      else c # GetSubstitution matched pre post (d # r))"

text \<open>
  The matches are found from left to right and do not overlap: after a match the search
  goes on \<open>max 1 (length pat)\<close> units further. \<open>seen\<close> is the part of the subject already
  passed, \<open>s\<close> the part still to scan. An empty pattern matches before every unit and at the
  end.
\<close>

function replaceAllFrom :: "jsstring \<Rightarrow> jsstring \<Rightarrow> jsstring \<Rightarrow> jsstring \<Rightarrow> jsstring" where
  "replaceAllFrom pat rep seen s =
     (if prefix pat s
      then GetSubstitution pat seen (drop (length pat) s) rep @
        (if pat = []
         then (case s of [] \<Rightarrow> [] | c # cs \<Rightarrow> c # replaceAllFrom pat rep (seen @ [c]) cs)
         else replaceAllFrom pat rep (seen @ pat) (drop (length pat) s))
      else (case s of [] \<Rightarrow> [] | c # cs \<Rightarrow> c # replaceAllFrom pat rep (seen @ [c]) cs))"
  by pat_completeness auto
termination
  by (relation "measure (\<lambda>(p, r, b, s). length s)") (auto simp: prefix_def)

declare replaceAllFrom.simps [simp del]

definition replaceAll :: "jsstring \<Rightarrow> jsstring \<Rightarrow> jsstring \<Rightarrow> jsstring" where
  "replaceAll pat rep s = replaceAllFrom pat rep [] s"

section \<open>The helpers of \<^verbatim>\<open>src/server.js\<close>\<close>

text \<open>
  \<^verbatim>\<open>safe(v, fallback = "")\<close>, lines 43 to 46. A form field is a string or is absent
  (\<open>None\<close>: \<^verbatim>\<open>undefined\<close> or \<^verbatim>\<open>null\<close>), which \<^verbatim>\<open>v ?? ""\<close> turns into the empty string.
  The caller passes \<open>[]\<close> where the source leaves out \<open>fallback\<close>.
\<close>

definition safe :: "jsstring option \<Rightarrow> jsstring \<Rightarrow> jsstring" where
  "safe v fallback =
     (let s = trim (case v of None \<Rightarrow> [] | Some x \<Rightarrow> x)
      in if length s \<noteq> 0 then s else fallback)"

text \<open>The literals of \<^verbatim>\<open>buildInputBundle\<close>, lines 56 and 57.\<close>

definition bundle_rule :: jsstring where
  "bundle_rule =
     [0x2500, 0x2500, 0x2500, 0x2500, 0x2500, 0x2500, 0x2500, 0x2500, 0x2500, 0x2500, 0x2500,
     0x2500, 0x2500, 0x2500, 0x2500, 0x2500, 0x2500, 0x2500, 0x2500, 0x2500]"

definition bundle_heading :: jsstring where
  "bundle_heading =
     [0x3010, 0x88DC, 0x5145, 0xFF1A, 0x8A55, 0x5206, 0x898F, 0x5247, 0xFF0F] @ js ''rubric'' @
     [0xFF08, 0x8F38, 0x5165, 0x8CC7, 0x6599, 0x7684, 0x4E00, 0x90E8, 0x5206, 0xFF09, 0x3011]"

text \<open>\<^verbatim>\<open>buildInputBundle\<close>, lines 48 to 60. \<^verbatim>\<open>!rb\<close> holds for the empty string only.\<close>

definition buildInputBundle :: "jsstring option \<Rightarrow> jsstring option \<Rightarrow> jsstring" where
  "buildInputBundle contextDocuments rubricInput =
     (let ctx = safe contextDocuments [];
          rb = safe rubricInput []
      in if rb = [] then ctx
         else join [10] [ctx, [], bundle_rule, bundle_heading, rb])"

text \<open>
  \<^verbatim>\<open>loadTemplate\<close>, lines 63 to 71: the content of \<^verbatim>\<open>template.txt\<close>, or an Error with
  the message of line 67 when the file does not exist. The file system is a parameter:
  \<open>None\<close> says that the file is missing.
\<close>

definition template_missing_message :: jsstring where
  "template_missing_message =
     [0x627E, 0x4E0D, 0x5230] @ js '' template.txt'' @ [0x3002, 0x8ACB, 0x5728, 0x5C08, 0x6848,
     0x6839, 0x76EE, 0x9304, 0x5EFA, 0x7ACB] @ js '' template.txt'' @ [0xFF0C, 0x4E26, 0x628A,
     0x4F60, 0x7684, 0x5B8C, 0x6574] @ js '' prompt '' @ [0x539F, 0x5C01, 0x4E0D, 0x52D5,
     0x8CBC, 0x9032, 0x53BB, 0x3002]"

record jserror =
  message :: "jsstring option"

definition loadTemplate :: "jsstring option \<Rightarrow> jserror + jsstring" where
  "loadTemplate template_txt =
     (case template_txt of
        None \<Rightarrow> Inl \<lparr>message = Some template_missing_message\<rparr>
      | Some t \<Rightarrow> Inr t)"

text \<open>\<^verbatim>\<open>buildPrompt\<close>, lines 73 to 82: seven calls of \<^verbatim>\<open>replaceAll\<close>, in this order.\<close>

record payload =
  contextDocuments :: jsstring
  trainingGoal :: jsstring
  traineeRole :: jsstring
  personaRole :: jsstring
  scenarioType :: jsstring
  coachRole :: jsstring
  customerName :: jsstring

definition buildPrompt :: "jsstring \<Rightarrow> payload \<Rightarrow> jsstring" where
  "buildPrompt template p =
     replaceAll (js ''{{CUSTOMER_NAME}}'') (customerName p)
      (replaceAll (js ''{{COACH_ROLE}}'') (coachRole p)
       (replaceAll (js ''{{SCENARIO_TYPE}}'') (scenarioType p)
        (replaceAll (js ''{{PERSONA_ROLE}}'') (personaRole p)
         (replaceAll (js ''{{TRAINEE_ROLE}}'') (traineeRole p)
          (replaceAll (js ''{{TRAINING_GOAL}}'') (trainingGoal p)
           (replaceAll (js ''{{CONTEXT_DOCUMENTS}}'') (contextDocuments p) template))))))"

text \<open>\<^verbatim>\<open>getExt\<close>, lines 84 to 87; the dot is code unit 46.\<close>

definition getExt :: "(jsstring \<Rightarrow> jsstring) \<Rightarrow> jsstring \<Rightarrow> jsstring" where
  "getExt unicodeLower filename =
     (case lastIndexOf 46 filename of
        Some i \<Rightarrow> toLowerCase unicodeLower (drop (i + 1) filename)
      | None \<Rightarrow> [])"

text \<open>
  \<^verbatim>\<open>clampText(s, maxChars = 80000)\<close>, lines 101 to 105. \<open>maxChars\<close> is a number of
  characters; every call in the source leaves it out and so uses 80000. The notice of
  line 104 is the literal before the length, the length in decimal, and the literal after it.
\<close>

definition truncation_prefix :: jsstring where
  "truncation_prefix =
     [10, 10, 40, 0x2026, 0x5DF2, 0x622A, 0x65B7, 0xFF0C, 0x539F, 0x9577, 0x5EA6, 32]"

definition truncation_suffix :: jsstring where
  "truncation_suffix = js '' chars)''"

definition truncation_notice :: "nat \<Rightarrow> jsstring" where
  "truncation_notice n = truncation_prefix @ decimal n @ truncation_suffix"

definition clampText :: "jsstring option \<Rightarrow> nat \<Rightarrow> jsstring" where
  "clampText s maxChars =
     (let text = (case s of None \<Rightarrow> [] | Some x \<Rightarrow> x)
      in if length text \<le> maxChars then text
         else take maxChars text @ truncation_notice (length text))"

definition default_maxChars :: nat where
  "default_maxChars = 80000"

text \<open>The extension tests, lines 107 to 124.\<close>

definition isSupportedTextExt :: "jsstring \<Rightarrow> bool" where
  "isSupportedTextExt ext \<longleftrightarrow>
     ext = js ''txt'' \<or> ext = js ''csv'' \<or> ext = js ''md'' \<or> ext = js ''json''"

definition isSupportedExcelExt :: "jsstring \<Rightarrow> bool" where
  "isSupportedExcelExt ext \<longleftrightarrow> ext = js ''xlsx'' \<or> ext = js ''xls''"

definition isSupportedImageExt :: "jsstring \<Rightarrow> bool" where
  "isSupportedImageExt ext \<longleftrightarrow>
     ext = js ''png'' \<or> ext = js ''jpg'' \<or> ext = js ''jpeg'' \<or> ext = js ''webp''"

definition isSupportedPdfExt :: "jsstring \<Rightarrow> bool" where
  "isSupportedPdfExt ext \<longleftrightarrow> ext = js ''pdf''"

definition isSupportedDocxExt :: "jsstring \<Rightarrow> bool" where
  "isSupportedDocxExt ext \<longleftrightarrow> ext = js ''docx''"

definition isSupportedPptxExt :: "jsstring \<Rightarrow> bool" where
  "isSupportedPptxExt ext \<longleftrightarrow> ext = js ''pptx''"

section \<open>What the program takes from its libraries and its surroundings\<close>

text \<open>
  The parsers, the codecs, the template file, the environment variable and the completion
  service are not part of the source. Each one is a parameter, collected in the record
  \<open>env\<close>. A call that may throw (or a promise that may be rejected) returns
  \<open>Inl\<close> of the error. The logging calls, the fields of an upload that only the log reads,
  and the temporary file of the slide parser (whose failures are those of \<open>extractText\<close>)
  are left out.
\<close>

type_synonym bytes = "8 word list"

record upload =
  originalname :: jsstring
  buffer :: bytes

record slide =
  slide_id :: "jsstring option"
  slide_text :: "jsstring list option"

record 'ws workbook =
  SheetNames :: "jsstring list"
  Sheets :: "jsstring \<Rightarrow> 'ws option"

record llm_request =
  model :: jsstring
  instructions :: jsstring
  input_text :: jsstring
  input_images :: "jsstring list"

record ('j, 'ws) env =
  unicodeLower :: "jsstring \<Rightarrow> jsstring"
  utf8_toString :: "bytes \<Rightarrow> jsstring"
  base64_toString :: "bytes \<Rightarrow> jsstring"
  JSON_parse :: "jsstring \<Rightarrow> jserror + 'j"
  JSON_stringify :: "'j \<Rightarrow> jsstring"
  XLSX_read :: "bytes \<Rightarrow> jserror + 'ws workbook"
  sheet_to_csv :: "'ws option \<Rightarrow> jserror + jsstring"
  pdfParse :: "bytes \<Rightarrow> jserror + jsstring option"
  extractRawText :: "bytes \<Rightarrow> jserror + jsstring option"
  extractText :: "bytes \<Rightarrow> jserror + slide list"
  template_txt :: "jsstring option"
  OPENAI_MODEL :: "jsstring option"
  responses_create :: "llm_request \<Rightarrow> jserror + jsstring option"

text \<open>
  \<open>JSON_stringify\<close> is \<^verbatim>\<open>JSON.stringify(obj, null, 2)\<close> on a value that \<^verbatim>\<open>JSON.parse\<close>
  returned. \<open>pdfParse\<close> and \<open>extractRawText\<close> give the property that the source reads from
  the result (\<^verbatim>\<open>data?.text\<close>, \<^verbatim>\<open>result?.value\<close>), \<open>None\<close> when it is missing.
\<close>

section \<open>The extractors\<close>

text \<open>\<^verbatim>\<open>excelBufferToText\<close>, lines 89 to 98. \<open>sheet_lines\<close> is its loop.\<close>

fun sheet_lines :: "('j, 'ws) env \<Rightarrow> 'ws workbook \<Rightarrow> jsstring list \<Rightarrow> jserror + jsstring list" where
  "sheet_lines e wb [] = Inr []"
| "sheet_lines e wb (sheetName # rest) =
     (case sheet_to_csv e (Sheets wb sheetName) of
        Inl err \<Rightarrow> Inl err
      | Inr csv \<Rightarrow>
          (case sheet_lines e wb rest of
             Inl err \<Rightarrow> Inl err
           | Inr lines \<Rightarrow>
               Inr ((js ''--- Sheet: '' @ sheetName @ js '' ---'' @ [10] @ csv) # lines)))"

definition excelBufferToText :: "('j, 'ws) env \<Rightarrow> bytes \<Rightarrow> jserror + jsstring" where
  "excelBufferToText e buf =
     (case XLSX_read e buf of
        Inl err \<Rightarrow> Inl err
      | Inr wb \<Rightarrow>
          (case sheet_lines e wb (SheetNames wb) of
             Inl err \<Rightarrow> Inl err
           | Inr lines \<Rightarrow> Inr (join [10, 10] lines)))"

text \<open>\<^verbatim>\<open>pptxBufferToText\<close>, lines 127 to 148.\<close>

definition slide_line :: "slide \<Rightarrow> jsstring" where
  "slide_line sl =
     js ''--- Slide: '' @ (case slide_id sl of None \<Rightarrow> js ''unknown'' | Some i \<Rightarrow> i) @
     js '' ---'' @ [10] @ (case slide_text sl of Some ts \<Rightarrow> join [10] ts | None \<Rightarrow> [])"

definition pptxBufferToText :: "('j, 'ws) env \<Rightarrow> bytes \<Rightarrow> jserror + jsstring" where
  "pptxBufferToText e buf =
     (case extractText e buf of
        Inl err \<Rightarrow> Inl err
      | Inr slides \<Rightarrow> Inr (join [10, 10] (map slide_line slides)))"

section \<open>The handler of \<^verbatim>\<open>POST /api/generate\<close>\<close>

text \<open>
  The literals of the handler, with the line that holds each one and what it says. The
  labels open a chunk and are followed by the file name and by \<open>label_close\<close>.
  \<^item> \<open>ctx_label_text\<close>, line 202: transcript attachment, text.
  \<^item> \<open>ctx_label_excel\<close>, line 209: transcript attachment, Excel.
  \<^item> \<open>ctx_label_pdf\<close>, line 218: transcript attachment, PDF.
  \<^item> \<open>ctx_label_word\<close>, line 230: transcript attachment, Word.
  \<^item> \<open>ctx_label_pptx\<close>, line 241: transcript attachment, PPTX.
  \<^item> \<open>rubric_label_text\<close>, line 285: rubric attachment, text.
  \<^item> \<open>rubric_label_excel\<close>, line 291: rubric attachment, Excel.
  \<^item> \<open>rubric_label_pdf\<close>, line 299: rubric attachment, PDF.
  \<^item> \<open>rubric_label_word\<close>, line 310: rubric attachment, Word.
  \<^item> \<open>rubric_label_pptx\<close>, line 320: rubric attachment, PPTX.
  \<^item> \<open>label_close\<close>, line 202: the closing bracket and a line feed.
  \<^item> \<open>pdf_substitute\<close>, line 219: this PDF may be a scan, no text could be extracted.
  \<^item> \<open>word_substitute\<close>, line 231: no text could be extracted from this Word file.
  \<^item> \<open>pptx_substitute\<close>, line 242: no text could be extracted from this PPTX.
  \<^item> \<open>ctx_unsupported_message\<close>, line 260: file format not supported in the transcript field.
  \<^item> \<open>rubric_image_message\<close>, line 273: the rubric field does not accept image files.
  \<^item> \<open>rubric_unsupported_message\<close>, line 329: file format not supported in the rubric field.
  \<^item> \<open>ctx_banner\<close>, line 337: two line feeds, the banner of the transcript attachments, a line feed.
  \<^item> \<open>rubric_banner\<close>, line 345: two line feeds, the banner of the rubric attachments, a line feed.
  \<^item> \<open>missing_transcript_message\<close>, line 353: transcript content is missing: enter the text or upload a file.
  \<^item> \<open>contextDocuments_fallback\<close>, line 362: paste the transcript or the check points here.
  \<^item> \<open>trainingGoal_marker\<close>, line 363: not provided: the AI is to decide and to define the training goal.
  \<^item> \<open>traineeRole_marker\<close>, line 364: not provided: the AI is to decide the role of the trainee.
  \<^item> \<open>personaRole_marker\<close>, line 365: not provided: the AI is to decide the kind of persona.
  \<^item> \<open>scenarioType_marker\<close>, line 366: not provided: the AI is to decide and to define the type of scenario.
  \<^item> \<open>coachRole_marker\<close>, line 367: not provided.
  \<^item> \<open>customerName_marker\<close>, line 368: not provided.
  \<^item> \<open>system_instructions\<close>, line 379: the system instruction of the completion request.
\<close>

definition ctx_label_text :: jsstring where
  "ctx_label_text = [91, 0x9010, 0x5B57, 0x7A3F, 0x9644, 0x4EF6, 0x6587, 0x5B57, 0xFF1A]"

definition ctx_label_excel :: jsstring where
  "ctx_label_excel = [91, 0x9010, 0x5B57, 0x7A3F, 0x9644, 0x4EF6] @ js ''Excel'' @ [0xFF1A]"

definition ctx_label_pdf :: jsstring where
  "ctx_label_pdf = [91, 0x9010, 0x5B57, 0x7A3F, 0x9644, 0x4EF6] @ js ''PDF'' @ [0xFF1A]"

definition ctx_label_word :: jsstring where
  "ctx_label_word = [91, 0x9010, 0x5B57, 0x7A3F, 0x9644, 0x4EF6] @ js ''Word'' @ [0xFF1A]"

definition ctx_label_pptx :: jsstring where
  "ctx_label_pptx = [91, 0x9010, 0x5B57, 0x7A3F, 0x9644, 0x4EF6] @ js ''PPTX'' @ [0xFF1A]"

definition rubric_label_text :: jsstring where
  "rubric_label_text = [91, 0x8A55, 0x5206, 0x8868, 0x9644, 0x4EF6, 0x6587, 0x5B57, 0xFF1A]"

definition rubric_label_excel :: jsstring where
  "rubric_label_excel = [91, 0x8A55, 0x5206, 0x8868, 0x9644, 0x4EF6] @ js ''Excel'' @ [0xFF1A]"

definition rubric_label_pdf :: jsstring where
  "rubric_label_pdf = [91, 0x8A55, 0x5206, 0x8868, 0x9644, 0x4EF6] @ js ''PDF'' @ [0xFF1A]"

definition rubric_label_word :: jsstring where
  "rubric_label_word = [91, 0x8A55, 0x5206, 0x8868, 0x9644, 0x4EF6] @ js ''Word'' @ [0xFF1A]"

definition rubric_label_pptx :: jsstring where
  "rubric_label_pptx = [91, 0x8A55, 0x5206, 0x8868, 0x9644, 0x4EF6] @ js ''PPTX'' @ [0xFF1A]"

definition label_close :: jsstring where
  "label_close = [93, 10]"

definition pdf_substitute :: jsstring where
  "pdf_substitute =
     [0xFF08, 0x6B64] @ js '' PDF '' @ [0x53EF, 0x80FD, 0x70BA, 0x6383, 0x63CF, 0x6A94, 0xFF0C,
     0x672A, 0x80FD, 0x89E3, 0x6790, 0x51FA, 0x6587, 0x5B57, 0xFF09]"

definition word_substitute :: jsstring where
  "word_substitute =
     [0xFF08, 0x6B64] @ js '' Word '' @ [0x6A94, 0x672A, 0x80FD, 0x89E3, 0x6790, 0x51FA,
     0x6587, 0x5B57, 0xFF09]"

definition pptx_substitute :: jsstring where
  "pptx_substitute =
     [0xFF08, 0x6B64] @ js '' PPTX '' @ [0x672A, 0x80FD, 0x89E3, 0x6790, 0x51FA, 0x6587,
     0x5B57, 0xFF09]"

definition ctx_unsupported_message :: jsstring where
  "ctx_unsupported_message =
     [0x9010, 0x5B57, 0x7A3F, 0x6B04, 0x4E0D, 0x652F, 0x63F4, 0x7684, 0x6A94, 0x6848, 0x683C,
     0x5F0F, 0xFF1A]"

definition rubric_image_message :: jsstring where
  "rubric_image_message =
     [0x8A55, 0x5206, 0x8868, 0x6B04, 0x4E0D, 0x63A5, 0x53D7, 0x5716, 0x7247, 0x6A94, 0xFF1A]"

definition rubric_unsupported_message :: jsstring where
  "rubric_unsupported_message =
     [0x8A55, 0x5206, 0x8868, 0x6B04, 0x4E0D, 0x652F, 0x63F4, 0x7684, 0x6A94, 0x6848, 0x683C,
     0x5F0F, 0xFF1A]"

definition ctx_banner :: jsstring where
  "ctx_banner =
     [10, 10, 0x3010, 0x9010, 0x5B57, 0x7A3F, 0x6B04, 0x9644, 0x4EF6, 0x5F59, 0x6574, 0x3011,
     10]"

definition rubric_banner :: jsstring where
  "rubric_banner =
     [10, 10, 0x3010, 0x8A55, 0x5206, 0x8868, 0x6B04, 0x9644, 0x4EF6, 0x5F59, 0x6574, 0x3011,
     10]"

definition missing_transcript_message :: jsstring where
  "missing_transcript_message =
     [0x7F3A, 0x5C11, 0x9010, 0x5B57, 0x7A3F, 0x5167, 0x5BB9, 0xFF1A, 0x8ACB, 0x8F38, 0x5165,
     0x9010, 0x5B57, 0x7A3F, 0x6587, 0x5B57, 0x6216, 0x4E0A, 0x50B3, 0x9010, 0x5B57, 0x7A3F,
     0x6A94, 0x6848, 0x3002]"

definition contextDocuments_fallback :: jsstring where
  "contextDocuments_fallback =
     [0xFF08, 0x6B64, 0x8655, 0x8CBC, 0x4E0A, 0x9010, 0x5B57, 0x7A3F, 0x6216, 0x6AA2, 0x6838,
     0x9EDE, 0xFF09]"

definition trainingGoal_marker :: jsstring where
  "trainingGoal_marker =
     [0xFF08, 0x672A, 0x63D0, 0x4F9B, 0xFF1A, 0x8ACB] @ js '' AI '' @ [0x81EA, 0x884C, 0x5224,
     0x65B7, 0x4E26, 0x5728, 0x8F38, 0x51FA, 0x4E2D, 0x660E, 0x78BA, 0x5B9A, 0x7FA9, 0x8A13,
     0x7DF4, 0x76EE, 0x6A19, 0xFF09]"

definition traineeRole_marker :: jsstring where
  "traineeRole_marker =
     [0xFF08, 0x672A, 0x63D0, 0x4F9B, 0xFF1A, 0x8ACB] @ js '' AI '' @ [0x81EA, 0x884C, 0x5224,
     0x65B7, 0x5B78, 0x54E1, 0x89D2, 0x8272, 0xFF09]"

definition personaRole_marker :: jsstring where
  "personaRole_marker =
     [0xFF08, 0x672A, 0x63D0, 0x4F9B, 0xFF1A, 0x8ACB] @ js '' AI '' @ [0x81EA, 0x884C, 0x5224,
     0x65B7, 0x5C0D, 0x7DF4, 0x89D2, 0x8272, 0x985E, 0x578B, 0xFF09]"

definition scenarioType_marker :: jsstring where
  "scenarioType_marker =
     [0xFF08, 0x672A, 0x63D0, 0x4F9B, 0xFF1A, 0x8ACB] @ js '' AI '' @ [0x81EA, 0x884C, 0x5224,
     0x65B7, 0x4E26, 0x5728, 0x8F38, 0x51FA, 0x4E2D, 0x660E, 0x78BA, 0x5B9A, 0x7FA9, 0x60C5,
     0x5883, 0x985E, 0x578B, 0xFF09]"

definition coachRole_marker :: jsstring where
  "coachRole_marker = [0xFF08, 0x672A, 0x63D0, 0x4F9B, 0xFF09]"

definition customerName_marker :: jsstring where
  "customerName_marker = [0xFF08, 0x672A, 0x63D0, 0x4F9B, 0xFF09]"

definition system_instructions :: jsstring where
  "system_instructions =
     [0x4F60, 0x662F, 0x56B4, 0x683C, 0x9075, 0x5B88, 0x683C, 0x5F0F, 0x8207, 0x7981, 0x6B62,
     0x4E8B, 0x9805, 0x7684, 0x60C5, 0x5883, 0x8173, 0x672C] @ js '' Prompt '' @ [0x5DE5,
     0x7A0B, 0x5E2B, 0x3002, 0x53EA, 0x8F38, 0x51FA, 0x4F7F, 0x7528, 0x8005, 0x8981, 0x6C42,
     0x7684, 0x5167, 0x5BB9, 0xFF0C, 0x4E0D, 0x8981, 0x591A, 0x8AAA, 0x3002]"

text \<open>
  The handler leaves a loop in two ways: it sends a response with a status and an error
  text and returns, or an exception reaches the \<^verbatim>\<open>catch\<close> of line 389.
\<close>

datatype abort = Responded nat jsstring | Thrown jserror

datatype extraction = TextChunk jsstring | ImageInput jsstring

text \<open>The text of a \<^verbatim>\<open>.json\<close> attachment, lines 196 to 201 and 279 to 284.\<close>

definition json_content :: "('j, 'ws) env \<Rightarrow> jsstring \<Rightarrow> jsstring \<Rightarrow> jsstring" where
  "json_content e ext content =
     (if ext = js ''json''
      then (case JSON_parse e content of
              Inl err \<Rightarrow> content
            | Inr obj \<Rightarrow> JSON_stringify e obj)
      else content)"

text \<open>
  The text of a PDF or Word chunk: \<^verbatim>\<open>(x || "").trim()\<close>, then the clamped text when it
  is not empty and the substitute otherwise.
\<close>

definition text_or_substitute :: "jsstring option \<Rightarrow> jsstring \<Rightarrow> jsstring" where
  "text_or_substitute extracted substitute =
     (let t = trim (case extracted of None \<Rightarrow> [] | Some x \<Rightarrow> x)
      in if t \<noteq> [] then clampText (Some t) default_maxChars else substitute)"

text \<open>The body of the loop over the transcript attachments, lines 191 to 261.\<close>

definition contextFileStep :: "('j, 'ws) env \<Rightarrow> upload \<Rightarrow> abort + extraction" where
  "contextFileStep e f =
     (let ext = getExt (unicodeLower e) (originalname f) in
      if isSupportedTextExt ext then
        (let content = json_content e ext (utf8_toString e (buffer f))
         in Inr (TextChunk (ctx_label_text @ originalname f @ label_close @
                            clampText (Some content) default_maxChars)))
      else if isSupportedExcelExt ext then
        (case excelBufferToText e (buffer f) of
           Inl err \<Rightarrow> Inl (Thrown err)
         | Inr csvText \<Rightarrow>
             Inr (TextChunk (ctx_label_excel @ originalname f @ label_close @
                             clampText (Some csvText) default_maxChars)))
      else if isSupportedPdfExt ext then
        (case pdfParse e (buffer f) of
           Inl err \<Rightarrow> Inl (Thrown err)
         | Inr data_text \<Rightarrow>
             Inr (TextChunk (ctx_label_pdf @ originalname f @ label_close @
                             text_or_substitute data_text pdf_substitute)))
      else if isSupportedDocxExt ext then
        (case extractRawText e (buffer f) of
           Inl err \<Rightarrow> Inl (Thrown err)
         | Inr result_value \<Rightarrow>
             Inr (TextChunk (ctx_label_word @ originalname f @ label_close @
                             text_or_substitute result_value word_substitute)))
      else if isSupportedPptxExt ext then
        (case pptxBufferToText e (buffer f) of
           Inl err \<Rightarrow> Inl (Thrown err)
         | Inr pptText \<Rightarrow>
             Inr (TextChunk (ctx_label_pptx @ originalname f @ label_close @
                             (if trim pptText \<noteq> [] then clampText (Some pptText) default_maxChars
                              else pptx_substitute))))
      else if isSupportedImageExt ext then
        (let mime = (if ext = js ''png'' then js ''image/png''
                     else if ext = js ''webp'' then js ''image/webp''
                     else js ''image/jpeg'');
             base64 = base64_toString e (buffer f)
         in Inr (ImageInput (js ''data:'' @ mime @ js '';base64,'' @ base64)))
      else Inl (Responded 400 (ctx_unsupported_message @ originalname f)))"

text \<open>
  The loop of lines 190 to 262, with the two arrays it pushes to.
\<close>

fun contextFilesLoop ::
  "('j, 'ws) env \<Rightarrow> upload list \<Rightarrow> jsstring list \<Rightarrow> jsstring list \<Rightarrow>
   abort + (jsstring list \<times> jsstring list)" where
  "contextFilesLoop e [] contextTextChunks imageInputs = Inr (contextTextChunks, imageInputs)"
| "contextFilesLoop e (f # fs) contextTextChunks imageInputs =
     (case contextFileStep e f of
        Inl a \<Rightarrow> Inl a
      | Inr (TextChunk c) \<Rightarrow> contextFilesLoop e fs (contextTextChunks @ [c]) imageInputs
      | Inr (ImageInput u) \<Rightarrow> contextFilesLoop e fs contextTextChunks (imageInputs @ [u]))"

text \<open>The body of the loop over the rubric attachments, lines 268 to 330.\<close>

definition rubricFileStep :: "('j, 'ws) env \<Rightarrow> upload \<Rightarrow> abort + jsstring" where
  "rubricFileStep e f =
     (let ext = getExt (unicodeLower e) (originalname f) in
      if isSupportedImageExt ext then
        Inl (Responded 400 (rubric_image_message @ originalname f))
      else if isSupportedTextExt ext then
        (let content = json_content e ext (utf8_toString e (buffer f))
         in Inr (rubric_label_text @ originalname f @ label_close @
                 clampText (Some content) default_maxChars))
      else if isSupportedExcelExt ext then
        (case excelBufferToText e (buffer f) of
           Inl err \<Rightarrow> Inl (Thrown err)
         | Inr csvText \<Rightarrow>
             Inr (rubric_label_excel @ originalname f @ label_close @
                  clampText (Some csvText) default_maxChars))
      else if isSupportedPdfExt ext then
        (case pdfParse e (buffer f) of
           Inl err \<Rightarrow> Inl (Thrown err)
         | Inr data_text \<Rightarrow>
             Inr (rubric_label_pdf @ originalname f @ label_close @
                  text_or_substitute data_text pdf_substitute))
      else if isSupportedDocxExt ext then
        (case extractRawText e (buffer f) of
           Inl err \<Rightarrow> Inl (Thrown err)
         | Inr result_value \<Rightarrow>
             Inr (rubric_label_word @ originalname f @ label_close @
                  text_or_substitute result_value word_substitute))
      else if isSupportedPptxExt ext then
        (case pptxBufferToText e (buffer f) of
           Inl err \<Rightarrow> Inl (Thrown err)
         | Inr pptText \<Rightarrow>
             Inr (rubric_label_pptx @ originalname f @ label_close @
                  (if trim pptText \<noteq> [] then clampText (Some pptText) default_maxChars
                   else pptx_substitute)))
      else Inl (Responded 400 (rubric_unsupported_message @ originalname f)))"

fun rubricFilesLoop ::
  "('j, 'ws) env \<Rightarrow> upload list \<Rightarrow> jsstring list \<Rightarrow> abort + jsstring list" where
  "rubricFilesLoop e [] rubricTextChunks = Inr rubricTextChunks"
| "rubricFilesLoop e (f # fs) rubricTextChunks =
     (case rubricFileStep e f of
        Inl a \<Rightarrow> Inl a
      | Inr c \<Rightarrow> rubricFilesLoop e fs (rubricTextChunks @ [c]))"

text \<open>
  The two merges, lines 334 to 339 and 342 to 347: \<^verbatim>\<open>[a, b].join("")\<close> is \<open>a @ b\<close>.
\<close>

definition mergedContext :: "jsstring \<Rightarrow> jsstring list \<Rightarrow> jsstring" where
  "mergedContext baseContext contextTextChunks =
     baseContext @
     (if length contextTextChunks \<noteq> 0 then ctx_banner @ join [10, 10] contextTextChunks else [])"

definition mergedRubric :: "jsstring \<Rightarrow> jsstring list \<Rightarrow> jsstring" where
  "mergedRubric baseRubric rubricTextChunks =
     baseRubric @
     (if length rubricTextChunks \<noteq> 0 then rubric_banner @ join [10, 10] rubricTextChunks else [])"

text \<open>The payload of lines 361 to 369.\<close>

definition handler_payload :: "jsstring \<Rightarrow> payload" where
  "handler_payload contextBundle =
     \<lparr>contextDocuments = safe (Some contextBundle) contextDocuments_fallback,
      trainingGoal = trainingGoal_marker,
      traineeRole = traineeRole_marker,
      personaRole = personaRole_marker,
      scenarioType = scenarioType_marker,
      coachRole = coachRole_marker,
      customerName = customerName_marker\<rparr>"

text \<open>
  A request, and what the handler does with it: the response it sends and the requests it
  made to the completion service, in order.
\<close>

record request =
  body_contextDocuments :: "jsstring option"
  body_text :: "jsstring option"
  body_rubricInput :: "jsstring option"
  contextFiles :: "upload list"
  rubricFiles :: "upload list"

datatype body = Output jsstring | Error jsstring

fun ok :: "body \<Rightarrow> bool" where
  "ok (Output out) = True"
| "ok (Error err) = False"

record response =
  status :: nat
  json :: body

record outcome =
  sent :: response
  dispatched :: "llm_request list"

definition error_message :: "jserror \<Rightarrow> jsstring" where
  "error_message err =
     (case message err of
        None \<Rightarrow> js ''Unknown error''
      | Some m \<Rightarrow> if m = [] then js ''Unknown error'' else m)"

definition finish :: "abort \<Rightarrow> llm_request list \<Rightarrow> outcome" where
  "finish a calls =
     (case a of
        Responded st err \<Rightarrow> \<lparr>sent = \<lparr>status = st, json = Error err\<rparr>, dispatched = calls\<rparr>
      | Thrown err \<Rightarrow>
          \<lparr>sent = \<lparr>status = 500, json = Error (error_message err)\<rparr>, dispatched = calls\<rparr>)"

text \<open>Lines 181 and 184. \<^verbatim>\<open>a || b\<close> on strings is \<open>a\<close> unless \<open>a\<close> is empty.\<close>

definition baseContext :: "request \<Rightarrow> jsstring" where
  "baseContext req =
     (if safe (body_contextDocuments req) [] \<noteq> [] then safe (body_contextDocuments req) []
      else safe (body_text req) [])"

definition baseRubric :: "request \<Rightarrow> jsstring" where
  "baseRubric req = safe (body_rubricInput req) []"

text \<open>
  The handler, lines 167 to 393. It runs once the upload middleware has accepted the
  request; the limits of lines 35 to 41 and 163 to 166 are enforced before it.
\<close>

definition generate :: "('j, 'ws) env \<Rightarrow> request \<Rightarrow> outcome" where
  "generate e req =
     (case contextFilesLoop e (contextFiles req) [] [] of
        Inl a \<Rightarrow> finish a []
      | Inr (contextTextChunks, imageInputs) \<Rightarrow>
     (case rubricFilesLoop e (rubricFiles req) [] of
        Inl a \<Rightarrow> finish a []
      | Inr rubricTextChunks \<Rightarrow>
     (let mergedCtx = mergedContext (baseContext req) contextTextChunks;
          mergedRb = mergedRubric (baseRubric req) rubricTextChunks
      in if safe (Some mergedCtx) [] = [] \<and> length imageInputs = 0
         then finish (Responded 400 missing_transcript_message) []
         else
           (let contextBundle = buildInputBundle (Some mergedCtx) (Some mergedRb);
                p = handler_payload contextBundle
            in case loadTemplate (template_txt e) of
                 Inl err \<Rightarrow> finish (Thrown err) []
               | Inr template \<Rightarrow>
              (let prompt = buildPrompt template p;
                   call = \<lparr>model = (case OPENAI_MODEL e of
                                      None \<Rightarrow> js ''gpt-5-mini''
                                    | Some m \<Rightarrow> if m = [] then js ''gpt-5-mini'' else m),
                           instructions = system_instructions,
                           input_text = prompt,
                           input_images = imageInputs\<rparr>
               in case responses_create e call of
                    Inl err \<Rightarrow> finish (Thrown err) [call]
                  | Inr output_text \<Rightarrow>
                      \<lparr>sent = \<lparr>status = 200,
                               json = Output (case output_text of None \<Rightarrow> [] | Some t \<Rightarrow> t)\<rparr>,
                       dispatched = [call]\<rparr>)))))"


text \<open>
  What the loop over the transcript attachments has pushed to its two arrays when it
  ends or is left: the text chunks and the image inputs of the attachments before the
  first one that is rejected or throws. It is used to speak of the merged text and of
  the images of a request whatever the way the handler ends.
\<close>

fun produced :: "('j, 'ws) env \<Rightarrow> upload list \<Rightarrow> jsstring list \<times> jsstring list" where
  "produced e [] = ([], [])"
| "produced e (f # fs) =
     (case contextFileStep e f of
        Inl a \<Rightarrow> ([], [])
      | Inr (TextChunk c) \<Rightarrow> (c # fst (produced e fs), snd (produced e fs))
      | Inr (ImageInput u) \<Rightarrow> (fst (produced e fs), u # snd (produced e fs)))"

section \<open>The prompt assembler as the specification describes it\<close>

text \<open>
  The specification speaks of seven named placeholders, each with a field text, and of a
  substitution whose order does not matter. These definitions follow its words; they are
  compared with \<open>buildPrompt\<close> below. \<open>substitute_in_order\<close> runs the same calls of
  \<open>replaceAll\<close> as \<open>buildPrompt\<close>, in the order of the list it is given.
\<close>

datatype placeholder =
  CONTEXT_DOCUMENTS | TRAINING_GOAL | TRAINEE_ROLE | PERSONA_ROLE | SCENARIO_TYPE |
  COACH_ROLE | CUSTOMER_NAME

fun token :: "placeholder \<Rightarrow> jsstring" where
  "token CONTEXT_DOCUMENTS = js ''{{CONTEXT_DOCUMENTS}}''"
| "token TRAINING_GOAL = js ''{{TRAINING_GOAL}}''"
| "token TRAINEE_ROLE = js ''{{TRAINEE_ROLE}}''"
| "token PERSONA_ROLE = js ''{{PERSONA_ROLE}}''"
| "token SCENARIO_TYPE = js ''{{SCENARIO_TYPE}}''"
| "token COACH_ROLE = js ''{{COACH_ROLE}}''"
| "token CUSTOMER_NAME = js ''{{CUSTOMER_NAME}}''"

fun field_text :: "payload \<Rightarrow> placeholder \<Rightarrow> jsstring" where
  "field_text p CONTEXT_DOCUMENTS = contextDocuments p"
| "field_text p TRAINING_GOAL = trainingGoal p"
| "field_text p TRAINEE_ROLE = traineeRole p"
| "field_text p PERSONA_ROLE = personaRole p"
| "field_text p SCENARIO_TYPE = scenarioType p"
| "field_text p COACH_ROLE = coachRole p"
| "field_text p CUSTOMER_NAME = customerName p"

definition source_order :: "placeholder list" where
  "source_order =
     [CONTEXT_DOCUMENTS, TRAINING_GOAL, TRAINEE_ROLE, PERSONA_ROLE, SCENARIO_TYPE,
      COACH_ROLE, CUSTOMER_NAME]"

definition substitute_in_order :: "placeholder list \<Rightarrow> jsstring \<Rightarrow> payload \<Rightarrow> jsstring" where
  "substitute_in_order ks template p =
     fold (\<lambda>k s. replaceAll (token k) (field_text p k) s) ks template"

text \<open>
  A template cut into pieces: literal text and placeholder tokens. \<open>render\<close> is the
  template's text, \<open>fill\<close> the text in which every token has given way to its field text.
\<close>

datatype segment = Literal jsstring | Placeholder placeholder

fun render :: "segment list \<Rightarrow> jsstring" where
  "render [] = []"
| "render (Literal l # segs) = l @ render segs"
| "render (Placeholder k # segs) = token k @ render segs"

fun fill :: "payload \<Rightarrow> segment list \<Rightarrow> jsstring" where
  "fill p [] = []"
| "fill p (Literal l # segs) = l @ fill p segs"
| "fill p (Placeholder k # segs) = field_text p k @ fill p segs"

fun literals :: "segment list \<Rightarrow> jsstring list" where
  "literals [] = []"
| "literals (Literal l # segs) = l # literals segs"
| "literals (Placeholder k # segs) = literals segs"

text \<open>\<open>fill_one k v\<close> lets the token of \<open>k\<close> give way to the text \<open>v\<close>.\<close>

fun fill_one :: "placeholder \<Rightarrow> jsstring \<Rightarrow> segment \<Rightarrow> segment" where
  "fill_one k v (Literal l) = Literal l"
| "fill_one k v (Placeholder k') = (if k' = k then Literal v else Placeholder k')"

section \<open>A small environment for concrete runs\<close>

text \<open>
  The concrete runs below need parsers to run with. In \<open>demo_env\<close> a parsed JSON value and
  a sheet are strings; the JSON parser accepts \<open>{}\<close> only; every workbook has the sheets
  \<open>Q1\<close> and \<open>Q2\<close>; the PDF parser throws on an empty buffer, as a PDF parser does on a
  file that is no PDF, and otherwise returns the bytes as text; the template file exists.
\<close>

definition demo_workbook :: "jsstring workbook" where
  "demo_workbook =
     \<lparr>SheetNames = [js ''Q1'', js ''Q2''],
      Sheets = (\<lambda>n. if n = js ''Q1'' then Some (js ''a,b'')
                     else if n = js ''Q2'' then Some (js ''c,d'') else None)\<rparr>"

definition demo_env :: "(jsstring, jsstring) env" where
  "demo_env =
     \<lparr>unicodeLower = (\<lambda>s. s),
      utf8_toString = map unat,
      base64_toString = (\<lambda>b. js ''AA==''),
      JSON_parse = (\<lambda>s. if s = js ''{}'' then Inr s
                          else Inl \<lparr>message = Some (js ''Unexpected token'')\<rparr>),
      JSON_stringify = (\<lambda>j. j),
      XLSX_read = (\<lambda>b. Inr demo_workbook),
      sheet_to_csv = (\<lambda>ws. case ws of None \<Rightarrow> Inr [] | Some csv \<Rightarrow> Inr csv),
      pdfParse = (\<lambda>b. if b = [] then Inl \<lparr>message = Some (js ''Invalid PDF structure'')\<rparr>
                        else Inr (Some (map unat b))),
      extractRawText = (\<lambda>b. Inr (Some (map unat b))),
      extractText = (\<lambda>b. Inr [\<lparr>slide_id = Some (js ''1''), slide_text = Some [map unat b]\<rparr>]),
      template_txt = Some (js ''Goal: {{TRAINING_GOAL}}. Input: {{CONTEXT_DOCUMENTS}}''),
      OPENAI_MODEL = None,
      responses_create = (\<lambda>call. Inr (Some (js ''done'')))\<rparr>"

definition upload_named :: "jsstring \<Rightarrow> bytes \<Rightarrow> upload" where
  "upload_named n b = \<lparr>originalname = n, buffer = b\<rparr>"

definition text_request :: "jsstring \<Rightarrow> upload list \<Rightarrow> upload list \<Rightarrow> request" where
  "text_request t cfs rfs =
     \<lparr>body_contextDocuments = None, body_text = Some t, body_rubricInput = None,
      contextFiles = cfs, rubricFiles = rfs\<rparr>"

section \<open>Properties\<close>

subsection \<open>Decimal numerals\<close>

lemma digits_value_snoc: "digits_value (ds @ [d]) = 10 * digits_value ds + (d - 48)"
  by (simp add: digits_value_def)

lemma digits_value_decimal: "digits_value (decimal n) = n"
proof (induction n rule: decimal.induct)
  case (1 n)
  show ?case
  proof (cases "n < 10")
    case True
    then show ?thesis by (subst decimal.simps) (simp add: digits_value_def)
  next
    case False
    with 1 have "digits_value (decimal (n div 10)) = n div 10" by simp
    with False show ?thesis
      by (subst decimal.simps) (simp add: digits_value_snoc)
  qed
qed

lemma decimal_digits: "list_all isDigit (decimal n)"
proof (induction n rule: decimal.induct)
  case (1 n)
  show ?case
  proof (cases "n < 10")
    case True
    then show ?thesis by (subst decimal.simps) (simp add: isDigit_def)
  next
    case False
    with 1 have "list_all isDigit (decimal (n div 10))" by simp
    moreover have "isDigit (48 + n mod 10)"
      by (simp add: isDigit_def)
    ultimately show ?thesis using False
      by (subst decimal.simps) simp
  qed
qed

lemma decimal_head: "n \<noteq> 0 \<Longrightarrow> decimal n \<noteq> [] \<and> hd (decimal n) \<noteq> 48"
proof (induction n rule: decimal.induct)
  case (1 n)
  show ?case
  proof (cases "n < 10")
    case True
    with "1.prems" show ?thesis by (subst (1 2) decimal.simps) simp
  next
    case False
    then have "n div 10 \<noteq> 0" by simp
    with 1 False have "decimal (n div 10) \<noteq> [] \<and> hd (decimal (n div 10)) \<noteq> 48"
      by simp
    with False show ?thesis
      by (subst (1 2) decimal.simps) simp
  qed
qed

lemma decimal_zero: "decimal 0 = [48]"
  by (subst decimal.simps) simp

lemma decimal_value_decimal: "decimal_value (decimal n) = Some n"
proof (cases "n = 0")
  case True
  then show ?thesis
    by (simp add: decimal_zero decimal_value_def digits_value_def isDigit_def)
next
  case False
  from decimal_head [OF False] show ?thesis
    by (simp add: decimal_value_def decimal_digits digits_value_decimal)
qed

subsection \<open>The truncation guard\<close>

text \<open>
  C3. For every text and every budget \<open>maxChars\<close> (80000 when the caller gives none): a
  text of at most \<open>maxChars\<close> units comes back unchanged; a longer one comes back as its
  first \<open>maxChars\<close> units followed by the truncation notice. The notice is the literal
  before the length, the numeral that the source prints for the length, and the literal
  after it; that numeral is a decimal numeral without leading zero that stands for the
  length of the whole text and for no other number. The length of the output is
  \<open>maxChars\<close> plus the length of the notice.
\<close>

theorem clampText_budget:
  "(length text \<le> maxChars \<longrightarrow> clampText (Some text) maxChars = text) \<and>
   (maxChars < length text \<longrightarrow>
      clampText (Some text) maxChars = take maxChars text @ truncation_notice (length text) \<and>
      length (clampText (Some text) maxChars) =
        maxChars + length (truncation_notice (length text)) \<and>
      truncation_notice (length text) =
        truncation_prefix @ decimal (length text) @ truncation_suffix \<and>
      decimal_value (decimal (length text)) = Some (length text)) \<and>
   default_maxChars = 80000"
  by (simp add: clampText_def Let_def truncation_notice_def decimal_value_decimal
      default_maxChars_def)

theorem clampText_budget_witness:
  "length (js ''abc'') \<le> (5::nat) \<and> clampText (Some (js ''abc'')) 5 = js ''abc'' \<and>
   (4::nat) < length (js ''abcdefghijkl'') \<and>
   clampText (Some (js ''abcdefghijkl'')) 4 =
     js ''abcd'' @ truncation_prefix @ js ''12'' @ truncation_suffix \<and>
   length (clampText (Some (js ''abcdefghijkl'')) 4) = 4 + length (truncation_notice 12) \<and>
   decimal_value (js ''12'') = Some 12 \<and>
   decimal_value [60] = None \<and> decimal_value (js ''012'') = None"
  using clampText_budget [of "js ''abc''" 5] clampText_budget [of "js ''abcdefghijkl''" 4]
  by (simp add: js_def truncation_notice_def decimal.simps decimal_value_def digits_value_def
      isDigit_def)

subsection \<open>The markers of the payload\<close>

text \<open>
  C1, as the specification has it, asks for six markers that differ from one another. The
  payload gives the coach role and the customer name the same marker.
\<close>

theorem payload_markers_counterexample:
  "coachRole (handler_payload (js ''transcript'')) =
   customerName (handler_payload (js ''transcript'')) \<and>
   \<not> distinct [trainingGoal_marker, traineeRole_marker, personaRole_marker,
     scenarioType_marker, coachRole_marker, customerName_marker]"
  by (simp add: handler_payload_def coachRole_marker_def customerName_marker_def)

text \<open>
  C1, amended. Whatever the request, the payload gives each of the six fields that the
  end user cannot supply a fixed marker. The markers of the training goal, the trainee
  role, the persona role and the scenario type differ from one another and from the
  marker of the coach role; the coach role and the customer name share one marker.
\<close>

theorem payload_markers:
  "trainingGoal (handler_payload contextBundle) = trainingGoal_marker \<and>
   traineeRole (handler_payload contextBundle) = traineeRole_marker \<and>
   personaRole (handler_payload contextBundle) = personaRole_marker \<and>
   scenarioType (handler_payload contextBundle) = scenarioType_marker \<and>
   coachRole (handler_payload contextBundle) = coachRole_marker \<and>
   customerName (handler_payload contextBundle) = customerName_marker \<and>
   distinct [trainingGoal_marker, traineeRole_marker, personaRole_marker,
     scenarioType_marker, coachRole_marker] \<and>
   coachRole_marker = customerName_marker"
  by (simp add: handler_payload_def trainingGoal_marker_def traineeRole_marker_def
      personaRole_marker_def scenarioType_marker_def coachRole_marker_def
      customerName_marker_def js_def)

subsection \<open>Extensions\<close>

lemma lastIndexOf_None: "c \<notin> set s \<Longrightarrow> lastIndexOf c s = None"
  by (induction s) auto

lemma lastIndexOf_last: "c \<notin> set suf \<Longrightarrow> lastIndexOf c (pre @ c # suf) = Some (length pre)"
  by (induction pre) (auto simp: lastIndexOf_None)

lemma getExt_after_last_dot:
  "46 \<notin> set suf \<Longrightarrow> getExt U (pre @ 46 # suf) = toLowerCase U suf"
  by (simp add: getExt_def lastIndexOf_last)

lemma getExt_no_dot: "46 \<notin> set filename \<Longrightarrow> getExt U filename = []"
  by (simp add: getExt_def lastIndexOf_None)

lemma empty_ext_unrecognised:
  "\<not> isSupportedTextExt []" "\<not> isSupportedExcelExt []" "\<not> isSupportedPdfExt []"
  "\<not> isSupportedDocxExt []" "\<not> isSupportedPptxExt []" "\<not> isSupportedImageExt []"
  by (simp_all add: isSupportedTextExt_def isSupportedExcelExt_def isSupportedPdfExt_def
      isSupportedDocxExt_def isSupportedPptxExt_def isSupportedImageExt_def js_def)

lemma contextFileStep_no_dot:
  "46 \<notin> set (originalname f) \<Longrightarrow>
   contextFileStep e f = Inl (Responded 400 (ctx_unsupported_message @ originalname f))"
  by (simp add: contextFileStep_def getExt_no_dot empty_ext_unrecognised)

lemma rubricFileStep_no_dot:
  "46 \<notin> set (originalname f) \<Longrightarrow>
   rubricFileStep e f = Inl (Responded 400 (rubric_unsupported_message @ originalname f))"
  by (simp add: rubricFileStep_def getExt_no_dot empty_ext_unrecognised)

subsection \<open>The two loops and the ways out of the handler\<close>

lemma contextFilesLoop_append:
  "contextFilesLoop e (pre @ rest) cs imgs =
     (case contextFilesLoop e pre cs imgs of
        Inl a \<Rightarrow> Inl a
      | Inr (cs', imgs') \<Rightarrow> contextFilesLoop e rest cs' imgs')"
  by (induction pre arbitrary: cs imgs) (auto split: sum.splits extraction.splits)

lemma rubricFilesLoop_append:
  "rubricFilesLoop e (pre @ rest) cs =
     (case rubricFilesLoop e pre cs of
        Inl a \<Rightarrow> Inl a
      | Inr cs' \<Rightarrow> rubricFilesLoop e rest cs')"
  by (induction pre arbitrary: cs) (auto split: sum.splits)

lemma generate_context_abort:
  "contextFilesLoop e (contextFiles req) [] [] = Inl a \<Longrightarrow> generate e req = finish a []"
  by (simp add: generate_def)

lemma generate_rubric_abort:
  "contextFilesLoop e (contextFiles req) [] [] = Inr r \<Longrightarrow>
   rubricFilesLoop e (rubricFiles req) [] = Inl a \<Longrightarrow> generate e req = finish a []"
  by (cases r) (simp add: generate_def)

text \<open>
  C10. The extension that the handler dispatches on is the part of the file name after
  its last dot, in lower case; on ASCII names \<open>toLowerCase\<close> maps \<open>A\<close> to \<open>Z\<close> onto
  \<open>a\<close> to \<open>z\<close>, so \<open>X.PDF\<close> is dispatched as \<open>pdf\<close>. A name without a dot has the empty
  extension, which none of the six tests accepts, so the step of either loop answers such
  an attachment with status 400 and the unsupported-format text followed by the file
  name; when the loop over the transcript attachments reaches it, that is the response
  of the request and no completion is asked for.
\<close>

theorem getExt_dispatch:
  "(46 \<notin> set suf \<longrightarrow> getExt U (pre @ 46 # suf) = toLowerCase U suf) \<and>
   (list_all (\<lambda>c. c < 128) suf \<longrightarrow> toLowerCase U suf = map asciiLower suf) \<and>
   getExt U (js ''X.PDF'') = js ''pdf'' \<and> isSupportedPdfExt (getExt U (js ''X.PDF'')) \<and>
   (46 \<notin> set filename \<longrightarrow> getExt U filename = []) \<and>
   \<not> isSupportedTextExt [] \<and> \<not> isSupportedExcelExt [] \<and> \<not> isSupportedPdfExt [] \<and>
   \<not> isSupportedDocxExt [] \<and> \<not> isSupportedPptxExt [] \<and> \<not> isSupportedImageExt [] \<and>
   (46 \<notin> set (originalname f) \<longrightarrow>
      contextFileStep e f = Inl (Responded 400 (ctx_unsupported_message @ originalname f)) \<and>
      rubricFileStep e f = Inl (Responded 400 (rubric_unsupported_message @ originalname f))) \<and>
   (46 \<notin> set (originalname f) \<and> contextFiles req = before @ f # after \<and>
    contextFilesLoop e before [] [] = Inr acc \<longrightarrow>
      generate e req =
        \<lparr>sent = \<lparr>status = 400, json = Error (ctx_unsupported_message @ originalname f)\<rparr>,
         dispatched = []\<rparr>)"
proof -
  have x: "getExt U (js ''X.PDF'') = js ''pdf''"
    by (simp add: js_def getExt_def toLowerCase_def asciiLower_def)
  have req: "generate e req =
        \<lparr>sent = \<lparr>status = 400, json = Error (ctx_unsupported_message @ originalname f)\<rparr>,
         dispatched = []\<rparr>"
    if "46 \<notin> set (originalname f)" "contextFiles req = before @ f # after"
       "contextFilesLoop e before [] [] = Inr acc"
  proof -
    have "contextFilesLoop e (contextFiles req) [] [] =
            Inl (Responded 400 (ctx_unsupported_message @ originalname f))"
      using that by (cases acc) (simp add: contextFilesLoop_append contextFileStep_no_dot)
    then show ?thesis
      by (simp add: generate_context_abort finish_def)
  qed
  show ?thesis
    using x req
    by (simp add: getExt_after_last_dot getExt_no_dot empty_ext_unrecognised
        contextFileStep_no_dot rubricFileStep_no_dot toLowerCase_def isSupportedPdfExt_def js_def)
qed

theorem getExt_dispatch_witness:
  "46 \<notin> set (js ''Csv'') \<and> list_all (\<lambda>c. c < 128) (js ''Csv'') \<and>
   getExt (\<lambda>s. s) (js ''notes.v2'' @ 46 # js ''Csv'') = js ''csv'' \<and>
   46 \<notin> set (js ''README'') \<and> getExt (\<lambda>s. s) (js ''README'') = [] \<and>
   contextFileStep demo_env (upload_named (js ''README'') []) =
     Inl (Responded 400 (ctx_unsupported_message @ js ''README'')) \<and>
   rubricFileStep demo_env (upload_named (js ''README'') []) =
     Inl (Responded 400 (rubric_unsupported_message @ js ''README'')) \<and>
   contextFilesLoop demo_env [upload_named (js ''a.txt'') []] [] [] =
     Inr ([ctx_label_text @ js ''a.txt'' @ label_close], []) \<and>
   generate demo_env
     (text_request (js ''hi'') [upload_named (js ''a.txt'') [], upload_named (js ''README'') []] []) =
     \<lparr>sent = \<lparr>status = 400, json = Error (ctx_unsupported_message @ js ''README'')\<rparr>,
      dispatched = []\<rparr>"
proof -
  have loop: "contextFilesLoop demo_env [upload_named (js ''a.txt'') []] [] [] =
     Inr ([ctx_label_text @ js ''a.txt'' @ label_close], [])"
    by (simp add: contextFileStep_def getExt_def toLowerCase_def asciiLower_def js_def
        upload_named_def demo_env_def isSupportedTextExt_def json_content_def clampText_def)
  have cf: "contextFiles (text_request (js ''hi'')
       [upload_named (js ''a.txt'') [], upload_named (js ''README'') []] []) =
     [upload_named (js ''a.txt'') []] @ upload_named (js ''README'') [] # []"
    by (simp add: text_request_def)
  have nodot: "46 \<notin> set (originalname (upload_named (js ''README'') []))"
    by (simp add: upload_named_def js_def)
  have name: "originalname (upload_named (js ''README'') []) = js ''README''"
    by (simp add: upload_named_def)
  have suf: "46 \<notin> set (js ''Csv'') \<and> list_all (\<lambda>c. c < 128) (js ''Csv'') \<and>
      map asciiLower (js ''Csv'') = js ''csv'' \<and> 46 \<notin> set (js ''README'')"
    by (simp add: js_def asciiLower_def)
  show ?thesis
    using getExt_dispatch [of "js ''Csv''" "\<lambda>s. s" "js ''notes.v2''" "js ''README''"
        "upload_named (js ''README'') []" demo_env
        "text_request (js ''hi'') [upload_named (js ''a.txt'') [], upload_named (js ''README'') []] []"
        "[upload_named (js ''a.txt'') []]" "[]"
        "([ctx_label_text @ js ''a.txt'' @ label_close], [])"]
      loop cf nodot name suf
    by simp
qed

subsection \<open>One attachment\<close>

lemma ext_tests_disjoint:
  "isSupportedTextExt ext \<Longrightarrow> \<not> isSupportedImageExt ext"
  "isSupportedExcelExt ext \<Longrightarrow> \<not> isSupportedImageExt ext \<and> \<not> isSupportedTextExt ext"
  "isSupportedPdfExt ext \<Longrightarrow>
     \<not> isSupportedImageExt ext \<and> \<not> isSupportedTextExt ext \<and> \<not> isSupportedExcelExt ext"
  "isSupportedImageExt ext \<Longrightarrow>
     \<not> isSupportedTextExt ext \<and> \<not> isSupportedExcelExt ext \<and> \<not> isSupportedPdfExt ext \<and>
     \<not> isSupportedDocxExt ext \<and> \<not> isSupportedPptxExt ext"
  by (auto simp: isSupportedTextExt_def isSupportedExcelExt_def isSupportedPdfExt_def
      isSupportedDocxExt_def isSupportedPptxExt_def isSupportedImageExt_def js_def)

lemma step_text:
  assumes "isSupportedTextExt (getExt (unicodeLower e) (originalname f))"
  shows "contextFileStep e f =
           Inr (TextChunk (ctx_label_text @ originalname f @ label_close @
             clampText (Some (json_content e (getExt (unicodeLower e) (originalname f))
               (utf8_toString e (buffer f)))) default_maxChars))"
    and "rubricFileStep e f =
           Inr (rubric_label_text @ originalname f @ label_close @
             clampText (Some (json_content e (getExt (unicodeLower e) (originalname f))
               (utf8_toString e (buffer f)))) default_maxChars)"
  using assms ext_tests_disjoint(1) [OF assms]
  by (simp_all add: contextFileStep_def rubricFileStep_def Let_def)


lemma step_pdf:
  assumes "isSupportedPdfExt (getExt (unicodeLower e) (originalname f))"
  shows "contextFileStep e f =
           (case pdfParse e (buffer f) of
              Inl err \<Rightarrow> Inl (Thrown err)
            | Inr data_text \<Rightarrow>
                Inr (TextChunk (ctx_label_pdf @ originalname f @ label_close @
                  text_or_substitute data_text pdf_substitute)))"
    and "rubricFileStep e f =
           (case pdfParse e (buffer f) of
              Inl err \<Rightarrow> Inl (Thrown err)
            | Inr data_text \<Rightarrow>
                Inr (rubric_label_pdf @ originalname f @ label_close @
                  text_or_substitute data_text pdf_substitute))"
  using assms ext_tests_disjoint(3) [OF assms]
  by (simp_all add: contextFileStep_def rubricFileStep_def Let_def)

lemma step_image:
  assumes "isSupportedImageExt (getExt (unicodeLower e) (originalname f))"
  shows "contextFileStep e f =
           Inr (ImageInput (js ''data:'' @
             (if getExt (unicodeLower e) (originalname f) = js ''png'' then js ''image/png''
              else if getExt (unicodeLower e) (originalname f) = js ''webp'' then js ''image/webp''
              else js ''image/jpeg'') @
             js '';base64,'' @ base64_toString e (buffer f)))"
    and "rubricFileStep e f = Inl (Responded 400 (rubric_image_message @ originalname f))"
  using assms ext_tests_disjoint(4) [OF assms]
  by (simp_all add: contextFileStep_def rubricFileStep_def Let_def)

lemma contextFileStep_abort:
  "contextFileStep e f = Inl a \<Longrightarrow> (\<exists>m. a = Responded 400 m) \<or> (\<exists>err. a = Thrown err)"
  by (auto simp: contextFileStep_def Let_def split: if_splits sum.splits)

lemma rubricFileStep_abort:
  "rubricFileStep e f = Inl a \<Longrightarrow> (\<exists>m. a = Responded 400 m) \<or> (\<exists>err. a = Thrown err)"
  by (auto simp: rubricFileStep_def Let_def split: if_splits sum.splits)

lemma contextFilesLoop_abort:
  "contextFilesLoop e files cs imgs = Inl a \<Longrightarrow>
   (\<exists>m. a = Responded 400 m) \<or> (\<exists>err. a = Thrown err)"
proof (induction files arbitrary: cs imgs)
  case Nil
  then show ?case by simp
next
  case (Cons f fs)
  show ?case
  proof (cases "contextFileStep e f")
    case (Inl b)
    with Cons.prems have "a = b" by simp
    with Inl show ?thesis by (simp add: contextFileStep_abort)
  next
    case (Inr x)
    with Cons show ?thesis by (cases x) auto
  qed
qed

lemma rubricFilesLoop_abort:
  "rubricFilesLoop e files cs = Inl a \<Longrightarrow>
   (\<exists>m. a = Responded 400 m) \<or> (\<exists>err. a = Thrown err)"
proof (induction files arbitrary: cs)
  case Nil
  then show ?case by simp
next
  case (Cons f fs)
  show ?case
  proof (cases "rubricFileStep e f")
    case (Inl b)
    with Cons.prems have "a = b" by simp
    with Inl show ?thesis by (simp add: rubricFileStep_abort)
  next
    case (Inr c)
    with Cons show ?thesis by auto
  qed
qed

lemma finish_abort:
  "(\<exists>m. a = Responded 400 m) \<or> (\<exists>err. a = Thrown err) \<Longrightarrow>
   dispatched (finish a []) = [] \<and> \<not> ok (json (sent (finish a []))) \<and>
   (status (sent (finish a [])) = 400 \<or> status (sent (finish a [])) = 500)"
  by (auto simp: finish_def)

subsection \<open>Concrete runs\<close>

lemmas run_defs =
  js_def upload_named_def text_request_def demo_env_def demo_workbook_def
  getExt_def toLowerCase_def asciiLower_def
  isSupportedTextExt_def isSupportedExcelExt_def isSupportedPdfExt_def
  isSupportedDocxExt_def isSupportedPptxExt_def isSupportedImageExt_def
  contextFileStep_def rubricFileStep_def json_content_def text_or_substitute_def
  clampText_def default_maxChars_def trim_def isWhiteSpace_def safe_def
  excelBufferToText_def pptxBufferToText_def slide_line_def
  mergedContext_def mergedRubric_def baseContext_def baseRubric_def
  generate_def finish_def error_message_def loadTemplate_def

lemma trim_empty_iff: "trim s = [] \<longleftrightarrow> list_all isWhiteSpace s"
proof
  assume "trim s = []"
  then have all: "\<forall>x\<in>set (dropWhile isWhiteSpace s). isWhiteSpace x"
    by (simp add: trim_def)
  have "dropWhile isWhiteSpace s = []"
  proof (cases "dropWhile isWhiteSpace s")
    case Nil
    then show ?thesis .
  next
    case (Cons y ys)
    then have "\<not> isWhiteSpace y"
      using hd_dropWhile [of isWhiteSpace s] by simp
    with all Cons show ?thesis by simp
  qed
  then show "list_all isWhiteSpace s"
    by (simp add: list_all_iff)
next
  assume "list_all isWhiteSpace s"
  then have "\<forall>x\<in>set s. isWhiteSpace x"
    by (simp add: list_all_iff)
  then have "dropWhile isWhiteSpace s = []"
    by (simp only: dropWhile_eq_Nil_conv)
  then have "rev (dropWhile isWhiteSpace (rev (dropWhile isWhiteSpace s))) = []"
    by (simp only: rev.simps dropWhile.simps)
  then show "trim s = []"
    by (simp only: trim_def)
qed

lemma safe_Some_trim: "safe (Some t) [] = trim t"
  by (simp add: safe_def Let_def)

subsection \<open>Spreadsheets\<close>




subsection \<open>JSON attachments\<close>

text \<open>
  C7. An attachment with the extension \<open>json\<close> always gives a text chunk, in either
  field: the step never answers it with an error and never throws. The chunk holds the
  pretty-printed value when the decoded content parses, and the decoded content itself
  when the parser throws; the content then passes through the truncation guard like any
  other text, which leaves a content within the budget as it is.
\<close>

theorem json_attachment:
  assumes "getExt (unicodeLower e) (originalname f) = js ''json''"
  shows
    "(JSON_parse e (utf8_toString e (buffer f)) = Inr obj \<longrightarrow>
        contextFileStep e f =
          Inr (TextChunk (ctx_label_text @ originalname f @ label_close @
            clampText (Some (JSON_stringify e obj)) default_maxChars)) \<and>
        rubricFileStep e f =
          Inr (rubric_label_text @ originalname f @ label_close @
            clampText (Some (JSON_stringify e obj)) default_maxChars)) \<and>
     (JSON_parse e (utf8_toString e (buffer f)) = Inl err \<longrightarrow>
        contextFileStep e f =
          Inr (TextChunk (ctx_label_text @ originalname f @ label_close @
            clampText (Some (utf8_toString e (buffer f))) default_maxChars)) \<and>
        rubricFileStep e f =
          Inr (rubric_label_text @ originalname f @ label_close @
            clampText (Some (utf8_toString e (buffer f))) default_maxChars) \<and>
        (length (utf8_toString e (buffer f)) \<le> default_maxChars \<longrightarrow>
           contextFileStep e f =
             Inr (TextChunk (ctx_label_text @ originalname f @ label_close @
               utf8_toString e (buffer f))) \<and>
           rubricFileStep e f =
             Inr (rubric_label_text @ originalname f @ label_close @
               utf8_toString e (buffer f))))"
proof -
  have t: "isSupportedTextExt (getExt (unicodeLower e) (originalname f))"
    using assms by (simp add: isSupportedTextExt_def)
  show ?thesis
    using assms by (simp add: step_text [OF t] json_content_def clampText_def)
qed

theorem json_attachment_witness:
  "getExt (unicodeLower demo_env) (originalname (upload_named (js ''bad.JSON'') [0x7B, 0x78])) =
     js ''json'' \<and>
   JSON_parse demo_env (utf8_toString demo_env [0x7B, 0x78]) =
     Inl \<lparr>message = Some (js ''Unexpected token'')\<rparr> \<and>
   length (utf8_toString demo_env [0x7B, 0x78]) \<le> default_maxChars \<and>
   contextFileStep demo_env (upload_named (js ''bad.JSON'') [0x7B, 0x78]) =
     Inr (TextChunk (ctx_label_text @ js ''bad.JSON'' @ label_close @ js ''{x'')) \<and>
   getExt (unicodeLower demo_env) (originalname (upload_named (js ''ok.json'') [0x7B, 0x7D])) =
     js ''json'' \<and>
   JSON_parse demo_env (utf8_toString demo_env [0x7B, 0x7D]) = Inr (js ''{}'') \<and>
   rubricFileStep demo_env (upload_named (js ''ok.json'') [0x7B, 0x7D]) =
     Inr (rubric_label_text @ js ''ok.json'' @ label_close @ js ''{}'')"
  using json_attachment [of demo_env "upload_named (js ''bad.JSON'') [0x7B, 0x78]"
      "js ''{}''" "\<lparr>message = Some (js ''Unexpected token'')\<rparr>"]
    json_attachment [of demo_env "upload_named (js ''ok.json'') [0x7B, 0x7D]"
      "js ''{}''" "\<lparr>message = Some (js ''Unexpected token'')\<rparr>"]
  by (simp add: run_defs)

subsection \<open>PDF attachments\<close>

text \<open>
  C8, as the specification has it, says that a PDF attachment never fails the request.
  The handler awaits the parser without a handler of its own, so a parser that throws
  ends the request in the \<^verbatim>\<open>catch\<close> of line 389 with status 500. Here the transcript
  field holds a file \<open>scan.pdf\<close> on which the parser throws.
\<close>

theorem pdf_attachment_counterexample:
  "isSupportedPdfExt (getExt (unicodeLower demo_env) (js ''scan.pdf'')) \<and>
   pdfParse demo_env [] = Inl \<lparr>message = Some (js ''Invalid PDF structure'')\<rparr> \<and>
   generate demo_env (text_request (js ''hello'') [upload_named (js ''scan.pdf'') []] []) =
     \<lparr>sent = \<lparr>status = 500, json = Error (js ''Invalid PDF structure'')\<rparr>,
      dispatched = []\<rparr>"
  by (simp add: run_defs)

lemma contextFilesLoop_aborts:
  "f \<in> set files \<Longrightarrow> contextFileStep e f = Inl a \<Longrightarrow>
   \<exists>a'. contextFilesLoop e files cs imgs = Inl a'"
proof (induction files arbitrary: cs imgs)
  case Nil
  then show ?case by simp
next
  case (Cons g gs)
  show ?case
  proof (cases "contextFileStep e g")
    case (Inl b)
    then show ?thesis by simp
  next
    case (Inr x)
    with Cons.prems have "f \<in> set gs" by auto
    from Cons.IH [OF this Cons.prems(2)] Inr show ?thesis
      by (cases x) simp_all
  qed
qed

lemma rubricFilesLoop_aborts:
  "f \<in> set files \<Longrightarrow> rubricFileStep e f = Inl a \<Longrightarrow>
   \<exists>a'. rubricFilesLoop e files cs = Inl a'"
proof (induction files arbitrary: cs)
  case Nil
  then show ?case by simp
next
  case (Cons g gs)
  show ?case
  proof (cases "rubricFileStep e g")
    case (Inl b)
    then show ?thesis by simp
  next
    case (Inr c)
    with Cons.prems have "f \<in> set gs" by auto
    from Cons.IH [OF this Cons.prems(2)] Inr show ?thesis by simp
  qed
qed

lemma aborting_attachment:
  assumes "contextFileStep e f = Inl a" and "rubricFileStep e f = Inl a'"
    and "f \<in> set (contextFiles req) \<or> f \<in> set (rubricFiles req)"
  shows "dispatched (generate e req) = [] \<and> \<not> ok (json (sent (generate e req))) \<and>
         (status (sent (generate e req)) = 400 \<or> status (sent (generate e req)) = 500)"
proof (cases "contextFilesLoop e (contextFiles req) [] []")
  case (Inl b)
  with finish_abort [OF contextFilesLoop_abort [OF Inl]] show ?thesis
    by (simp add: generate_context_abort)
next
  case (Inr r)
  have "f \<notin> set (contextFiles req)"
    using contextFilesLoop_aborts [OF _ assms(1), of "contextFiles req" "[]" "[]"] Inr by auto
  with assms(3) have "f \<in> set (rubricFiles req)" by simp
  from rubricFilesLoop_aborts [OF this assms(2)] obtain b
    where b: "rubricFilesLoop e (rubricFiles req) [] = Inl b"
    by blast
  with finish_abort [OF rubricFilesLoop_abort [OF b]] Inr show ?thesis
    by (simp add: generate_rubric_abort)
qed

text \<open>
  C8, amended. For every PDF attachment on which the parser returns, in either field, the
  step gives a text chunk and no error: when the extracted text is missing, empty or
  made of white space only, the chunk holds the substitute message about a scanned
  document; otherwise it holds the trimmed extracted text, passed through the truncation
  guard. When the parser throws, the step throws. A request that holds such an
  attachment in either field asks for no completion and gets a response with \<open>ok\<close>
  false and status 400 or 500. The response has status 500 and the message of the
  parser's error (\<open>Unknown error\<close> when it has none) whenever the attachments handled
  before it are accepted: the transcript attachments before it when it is a transcript
  attachment, all transcript attachments and the rubric attachments before it when it is
  a rubric attachment.
\<close>

theorem pdf_attachment:
  assumes "isSupportedPdfExt (getExt (unicodeLower e) (originalname f))"
  shows
    "(pdfParse e (buffer f) = Inr extracted \<and>
      list_all isWhiteSpace (case extracted of None \<Rightarrow> [] | Some x \<Rightarrow> x) \<longrightarrow>
        contextFileStep e f =
          Inr (TextChunk (ctx_label_pdf @ originalname f @ label_close @ pdf_substitute)) \<and>
        rubricFileStep e f =
          Inr (rubric_label_pdf @ originalname f @ label_close @ pdf_substitute)) \<and>
     (pdfParse e (buffer f) = Inr (Some x) \<and> \<not> list_all isWhiteSpace x \<longrightarrow>
        contextFileStep e f =
          Inr (TextChunk (ctx_label_pdf @ originalname f @ label_close @
            clampText (Some (trim x)) default_maxChars)) \<and>
        rubricFileStep e f =
          Inr (rubric_label_pdf @ originalname f @ label_close @
            clampText (Some (trim x)) default_maxChars)) \<and>
     (pdfParse e (buffer f) = Inl err \<longrightarrow>
        contextFileStep e f = Inl (Thrown err) \<and> rubricFileStep e f = Inl (Thrown err) \<and>
        (f \<in> set (contextFiles req) \<or> f \<in> set (rubricFiles req) \<longrightarrow>
           dispatched (generate e req) = [] \<and> \<not> ok (json (sent (generate e req))) \<and>
           (status (sent (generate e req)) = 400 \<or> status (sent (generate e req)) = 500)) \<and>
        (contextFiles req = before @ f # after \<and>
         contextFilesLoop e before [] [] = Inr acc \<longrightarrow>
           generate e req =
             \<lparr>sent = \<lparr>status = 500, json = Error (error_message err)\<rparr>, dispatched = []\<rparr>) \<and>
        (contextFilesLoop e (contextFiles req) [] [] = Inr r \<and>
         rubricFiles req = before @ f # after \<and> rubricFilesLoop e before [] = Inr cs \<longrightarrow>
           generate e req =
             \<lparr>sent = \<lparr>status = 500, json = Error (error_message err)\<rparr>, dispatched = []\<rparr>))"
proof -
  have empty: "text_or_substitute extracted pdf_substitute = pdf_substitute"
    if "list_all isWhiteSpace (case extracted of None \<Rightarrow> [] | Some x \<Rightarrow> x)"
    using that by (simp add: text_or_substitute_def trim_empty_iff)
  have full: "text_or_substitute (Some x) pdf_substitute =
      clampText (Some (trim x)) default_maxChars"
    if "\<not> list_all isWhiteSpace x"
    using that by (simp add: text_or_substitute_def trim_empty_iff)
  have steps: "contextFileStep e f = Inl (Thrown err) \<and> rubricFileStep e f = Inl (Thrown err)"
    if "pdfParse e (buffer f) = Inl err"
    using that by (simp add: step_pdf [OF assms])
  have anywhere: "dispatched (generate e req) = [] \<and> \<not> ok (json (sent (generate e req))) \<and>
        (status (sent (generate e req)) = 400 \<or> status (sent (generate e req)) = 500)"
    if "pdfParse e (buffer f) = Inl err"
       "f \<in> set (contextFiles req) \<or> f \<in> set (rubricFiles req)"
    using aborting_attachment [of e f "Thrown err" "Thrown err" req] steps [OF that(1)] that(2)
    by blast
  have in_transcript: "generate e req =
      \<lparr>sent = \<lparr>status = 500, json = Error (error_message err)\<rparr>, dispatched = []\<rparr>"
    if "pdfParse e (buffer f) = Inl err" "contextFiles req = before @ f # after"
       "contextFilesLoop e before [] [] = Inr acc"
  proof -
    have "contextFilesLoop e (contextFiles req) [] [] = Inl (Thrown err)"
      using that steps [OF that(1)] by (cases acc) (simp add: contextFilesLoop_append)
    then show ?thesis
      by (simp add: generate_context_abort finish_def)
  qed
  have in_rubric: "generate e req =
      \<lparr>sent = \<lparr>status = 500, json = Error (error_message err)\<rparr>, dispatched = []\<rparr>"
    if "pdfParse e (buffer f) = Inl err" "contextFilesLoop e (contextFiles req) [] [] = Inr r"
       "rubricFiles req = before @ f # after" "rubricFilesLoop e before [] = Inr cs"
  proof -
    have "rubricFilesLoop e (rubricFiles req) [] = Inl (Thrown err)"
      using that steps [OF that(1)] by (simp add: rubricFilesLoop_append)
    with that(2) show ?thesis
      by (simp add: generate_rubric_abort finish_def)
  qed
  have returns: "(pdfParse e (buffer f) = Inr extracted \<and>
      list_all isWhiteSpace (case extracted of None \<Rightarrow> [] | Some x \<Rightarrow> x) \<longrightarrow>
        contextFileStep e f =
          Inr (TextChunk (ctx_label_pdf @ originalname f @ label_close @ pdf_substitute)) \<and>
        rubricFileStep e f =
          Inr (rubric_label_pdf @ originalname f @ label_close @ pdf_substitute)) \<and>
     (pdfParse e (buffer f) = Inr (Some x) \<and> \<not> list_all isWhiteSpace x \<longrightarrow>
        contextFileStep e f =
          Inr (TextChunk (ctx_label_pdf @ originalname f @ label_close @
            clampText (Some (trim x)) default_maxChars)) \<and>
        rubricFileStep e f =
          Inr (rubric_label_pdf @ originalname f @ label_close @
            clampText (Some (trim x)) default_maxChars))"
    using empty full by (simp add: step_pdf [OF assms])
  from returns steps anywhere in_transcript in_rubric show ?thesis
    by blast
qed

theorem pdf_attachment_witness:
  "isSupportedPdfExt (getExt (unicodeLower demo_env) (originalname (upload_named (js ''a.pdf'') [32]))) \<and>
   pdfParse demo_env (buffer (upload_named (js ''a.pdf'') [32])) = Inr (Some [32]) \<and>
   list_all isWhiteSpace [32] \<and>
   contextFileStep demo_env (upload_named (js ''a.pdf'') [32]) =
     Inr (TextChunk (ctx_label_pdf @ js ''a.pdf'' @ label_close @ pdf_substitute)) \<and>
   pdfParse demo_env (buffer (upload_named (js ''a.pdf'') [32, 0x41])) = Inr (Some [32, 0x41]) \<and>
   \<not> list_all isWhiteSpace [32, 0x41] \<and>
   rubricFileStep demo_env (upload_named (js ''a.pdf'') [32, 0x41]) =
     Inr (rubric_label_pdf @ js ''a.pdf'' @ label_close @ js ''A'') \<and>
   pdfParse demo_env (buffer (upload_named (js ''a.pdf'') [])) =
     Inl \<lparr>message = Some (js ''Invalid PDF structure'')\<rparr> \<and>
   contextFiles (text_request (js ''hello'') [upload_named (js ''t.txt'') []]
       [upload_named (js ''r.md'') [], upload_named (js ''a.pdf'') []]) =
     [upload_named (js ''t.txt'') []] \<and>
   rubricFiles (text_request (js ''hello'') [upload_named (js ''t.txt'') []]
       [upload_named (js ''r.md'') [], upload_named (js ''a.pdf'') []]) =
     [upload_named (js ''r.md'') []] @ upload_named (js ''a.pdf'') [] # [] \<and>
   contextFilesLoop demo_env [upload_named (js ''t.txt'') []] [] [] =
     Inr ([ctx_label_text @ js ''t.txt'' @ label_close], []) \<and>
   rubricFilesLoop demo_env [upload_named (js ''r.md'') []] [] =
     Inr [rubric_label_text @ js ''r.md'' @ label_close] \<and>
   generate demo_env (text_request (js ''hello'') [upload_named (js ''t.txt'') []]
       [upload_named (js ''r.md'') [], upload_named (js ''a.pdf'') []]) =
     \<lparr>sent = \<lparr>status = 500, json = Error (js ''Invalid PDF structure'')\<rparr>,
      dispatched = []\<rparr> \<and>
   generate demo_env (text_request (js ''hello'')
       [upload_named (js ''t.txt'') [], upload_named (js ''a.pdf'') []] []) =
     \<lparr>sent = \<lparr>status = 500, json = Error (js ''Invalid PDF structure'')\<rparr>,
      dispatched = []\<rparr>"
proof -
  have ext: "isSupportedPdfExt
      (getExt (unicodeLower demo_env) (originalname (upload_named (js ''a.pdf'') b)))"
    for b
    by (simp add: run_defs)
  show ?thesis
    using pdf_attachment [OF ext [of "[32]"], where extracted = "Some [32]"]
      pdf_attachment [OF ext [of "[32, 0x41]"], where x = "[32, 0x41]"]
      pdf_attachment [OF ext [of "[]"], where err = "\<lparr>message = Some (js ''Invalid PDF structure'')\<rparr>"
        and req = "text_request (js ''hello'') [upload_named (js ''t.txt'') []]
          [upload_named (js ''r.md'') [], upload_named (js ''a.pdf'') []]"
        and before = "[upload_named (js ''r.md'') []]" and after = "[]"
        and r = "([ctx_label_text @ js ''t.txt'' @ label_close], [])"
        and cs = "[rubric_label_text @ js ''r.md'' @ label_close]"]
      pdf_attachment [OF ext [of "[]"], where err = "\<lparr>message = Some (js ''Invalid PDF structure'')\<rparr>"
        and req = "text_request (js ''hello'')
          [upload_named (js ''t.txt'') [], upload_named (js ''a.pdf'') []] []"
        and before = "[upload_named (js ''t.txt'') []]" and after = "[]"
        and acc = "([ctx_label_text @ js ''t.txt'' @ label_close], [])"]
    by (simp add: run_defs)
qed

subsection \<open>The bundle of a field\<close>





subsection \<open>The missing transcript\<close>

text \<open>
  C5, as the specification has it, promises the message about the missing transcript
  whenever the transcript field gives no text and no image. The check of line 350 comes
  after the loop over the rubric attachments, so a rubric attachment that is rejected
  decides the response first. Here the request has no transcript at all and one image in
  the rubric field.
\<close>

theorem empty_transcript_counterexample:
  "contextFilesLoop demo_env
     (contextFiles (text_request [] [] [upload_named (js ''b.png'') []])) [] [] = Inr ([], []) \<and>
   trim (mergedContext (baseContext (text_request [] [] [upload_named (js ''b.png'') []])) []) = [] \<and>
   generate demo_env (text_request [] [] [upload_named (js ''b.png'') []]) =
     \<lparr>sent = \<lparr>status = 400, json = Error (rubric_image_message @ js ''b.png'')\<rparr>,
      dispatched = []\<rparr> \<and>
   rubric_image_message @ js ''b.png'' \<noteq> missing_transcript_message"
  by (simp add: run_defs rubric_image_message_def missing_transcript_message_def)

lemma produced_loop:
  "contextFilesLoop e files cs imgs = Inr (cs', imgs') \<Longrightarrow>
   cs' = cs @ fst (produced e files) \<and> imgs' = imgs @ snd (produced e files)"
proof (induction files arbitrary: cs imgs)
  case Nil
  then show ?case by simp
next
  case (Cons f fs)
  show ?case
  proof (cases "contextFileStep e f")
    case (Inl a)
    with Cons.prems show ?thesis by simp
  next
    case (Inr x)
    show ?thesis
    proof (cases x)
      case (TextChunk c)
      with Inr Cons.prems have "contextFilesLoop e fs (cs @ [c]) imgs = Inr (cs', imgs')"
        by simp
      from Cons.IH [OF this] Inr TextChunk show ?thesis by simp
    next
      case (ImageInput u)
      with Inr Cons.prems have "contextFilesLoop e fs cs (imgs @ [u]) = Inr (cs', imgs')"
        by simp
      from Cons.IH [OF this] Inr ImageInput show ?thesis by simp
    qed
  qed
qed

lemma banner_not_blank: "chunks \<noteq> [] \<Longrightarrow> trim (mergedContext base chunks) \<noteq> []"
proof -
  assume "chunks \<noteq> []"
  moreover have "\<not> list_all isWhiteSpace ctx_banner"
    by (simp add: ctx_banner_def isWhiteSpace_def)
  ultimately show ?thesis
    by (simp add: trim_empty_iff mergedContext_def)
qed

lemma nothing_produced:
  assumes "trim (mergedContext base (fst (produced e files))) = []"
    and "snd (produced e files) = []"
  shows "files = [] \<or> (\<exists>f fs a. files = f # fs \<and> contextFileStep e f = Inl a)"
proof (cases files)
  case Nil
  then show ?thesis by simp
next
  case (Cons f fs)
  show ?thesis
  proof (cases "contextFileStep e f")
    case (Inl a)
    with Cons show ?thesis by simp
  next
    case (Inr x)
    show ?thesis
    proof (cases x)
      case (TextChunk c)
      with Inr Cons have "fst (produced e files) \<noteq> []" by simp
      from banner_not_blank [OF this] assms(1) show ?thesis by simp
    next
      case (ImageInput u)
      with Inr Cons assms(2) show ?thesis by simp
    qed
  qed
qed

text \<open>
  C5, amended. Take any request in which the merged text of the transcript field (the
  trimmed literal text and the chunks that the transcript attachments gave) is empty
  after trimming and the transcript attachments gave no image input. Then no completion
  is asked for and the response has \<open>ok\<close> false and status 400 or 500. When neither loop
  is left by a rejection or an exception, the request has no transcript attachment and
  the response has status 400 and the message about the missing transcript.
\<close>

theorem empty_transcript:
  assumes "trim (mergedContext (baseContext req) (fst (produced e (contextFiles req)))) = []"
    and "snd (produced e (contextFiles req)) = []"
  shows "dispatched (generate e req) = [] \<and> \<not> ok (json (sent (generate e req))) \<and>
         (status (sent (generate e req)) = 400 \<or> status (sent (generate e req)) = 500) \<and>
         (contextFilesLoop e (contextFiles req) [] [] = Inr r \<and>
          rubricFilesLoop e (rubricFiles req) [] = Inr rubricTextChunks \<longrightarrow>
            contextFiles req = [] \<and>
            generate e req =
              \<lparr>sent = \<lparr>status = 400, json = Error missing_transcript_message\<rparr>,
               dispatched = []\<rparr>)"
proof (cases "contextFilesLoop e (contextFiles req) [] []")
  case (Inl a)
  with finish_abort [OF contextFilesLoop_abort [OF Inl]] show ?thesis
    by (simp add: generate_context_abort)
next
  case (Inr r')
  obtain cs imgs where r': "r' = (cs, imgs)" by (cases r')
  from produced_loop [of e "contextFiles req" "[]" "[]" cs imgs] Inr r'
  have cs: "cs = fst (produced e (contextFiles req))"
    and imgs: "imgs = snd (produced e (contextFiles req))"
    by simp_all
  have nofiles: "contextFiles req = []"
  proof (rule ccontr)
    assume "contextFiles req \<noteq> []"
    with nothing_produced [OF assms] obtain f fs a
      where "contextFiles req = f # fs" "contextFileStep e f = Inl a"
      by blast
    with Inr show False by simp
  qed
  show ?thesis
  proof (cases "rubricFilesLoop e (rubricFiles req) []")
    case (Inl a)
    then have "generate e req = finish a []"
      using Inr by (rule generate_rubric_abort [rotated])
    with finish_abort [OF rubricFilesLoop_abort [OF Inl]] Inl show ?thesis
      by simp
  next
    case rub: (Inr rcs)
    from Inr r' rub cs imgs assms have "generate e req =
        \<lparr>sent = \<lparr>status = 400, json = Error missing_transcript_message\<rparr>, dispatched = []\<rparr>"
      by (simp add: generate_def safe_Some_trim finish_def)
    with nofiles show ?thesis by simp
  qed
qed

theorem empty_transcript_witness:
  "trim (mergedContext (baseContext (text_request [32, 10] [] [upload_named (js ''r.txt'') []]))
     (fst (produced demo_env
        (contextFiles (text_request [32, 10] [] [upload_named (js ''r.txt'') []]))))) = [] \<and>
   snd (produced demo_env
     (contextFiles (text_request [32, 10] [] [upload_named (js ''r.txt'') []]))) = [] \<and>
   contextFilesLoop demo_env
     (contextFiles (text_request [32, 10] [] [upload_named (js ''r.txt'') []])) [] [] = Inr ([], []) \<and>
   rubricFilesLoop demo_env
     (rubricFiles (text_request [32, 10] [] [upload_named (js ''r.txt'') []])) [] =
     Inr [rubric_label_text @ js ''r.txt'' @ label_close] \<and>
   generate demo_env (text_request [32, 10] [] [upload_named (js ''r.txt'') []]) =
     \<lparr>sent = \<lparr>status = 400, json = Error missing_transcript_message\<rparr>, dispatched = []\<rparr> \<and>
   trim (mergedContext (baseContext (text_request [32] [upload_named (js ''a.xyz'') []] []))
     (fst (produced demo_env
        (contextFiles (text_request [32] [upload_named (js ''a.xyz'') []] []))))) = [] \<and>
   snd (produced demo_env
     (contextFiles (text_request [32] [upload_named (js ''a.xyz'') []] []))) = [] \<and>
   generate demo_env (text_request [32] [upload_named (js ''a.xyz'') []] []) =
     \<lparr>sent = \<lparr>status = 400, json = Error (ctx_unsupported_message @ js ''a.xyz'')\<rparr>,
      dispatched = []\<rparr>"
proof -
  have m: "trim (mergedContext
      (baseContext (text_request [32, 10] [] [upload_named (js ''r.txt'') []]))
      (fst (produced demo_env
        (contextFiles (text_request [32, 10] [] [upload_named (js ''r.txt'') []]))))) = []"
    by (simp add: run_defs)
  have i: "snd (produced demo_env
      (contextFiles (text_request [32, 10] [] [upload_named (js ''r.txt'') []]))) = []"
    by (simp add: text_request_def)
  have c: "contextFilesLoop demo_env
     (contextFiles (text_request [32, 10] [] [upload_named (js ''r.txt'') []])) [] [] = Inr ([], [])"
    by (simp add: text_request_def)
  have r: "rubricFilesLoop demo_env
     (rubricFiles (text_request [32, 10] [] [upload_named (js ''r.txt'') []])) [] =
     Inr [rubric_label_text @ js ''r.txt'' @ label_close]"
    by (simp add: run_defs)
  have other: "trim (mergedContext (baseContext (text_request [32] [upload_named (js ''a.xyz'') []] []))
     (fst (produced demo_env
        (contextFiles (text_request [32] [upload_named (js ''a.xyz'') []] []))))) = [] \<and>
   snd (produced demo_env
     (contextFiles (text_request [32] [upload_named (js ''a.xyz'') []] []))) = [] \<and>
   generate demo_env (text_request [32] [upload_named (js ''a.xyz'') []] []) =
     \<lparr>sent = \<lparr>status = 400, json = Error (ctx_unsupported_message @ js ''a.xyz'')\<rparr>,
      dispatched = []\<rparr>"
    by (simp add: run_defs)
  show ?thesis
    using empty_transcript [OF m i, of "([], [])" "[rubric_label_text @ js ''r.txt'' @ label_close]"]
      m i c r other
    by simp
qed

subsection \<open>Images\<close>

lemma rubricFilesLoop_image:
  "f \<in> set files \<Longrightarrow> isSupportedImageExt (getExt (unicodeLower e) (originalname f)) \<Longrightarrow>
   \<exists>a. rubricFilesLoop e files cs = Inl a"
proof (induction files arbitrary: cs)
  case Nil
  then show ?case by simp
next
  case (Cons g gs)
  show ?case
  proof (cases "rubricFileStep e g")
    case (Inl a)
    then show ?thesis by simp
  next
    case (Inr c)
    with Cons.prems have "f \<noteq> g"
      using step_image(2) [of e f] by auto
    with Cons.prems have "f \<in> set gs" by simp
    from Cons.IH [OF this Cons.prems(2)] Inr show ?thesis by simp
  qed
qed

text \<open>
  C6, as the specification has it, promises for every request with an image in the rubric
  field a response that names that file. The loop over the transcript attachments runs
  first, and a file it rejects decides the response. Here the transcript field holds a
  file of an unknown format and the rubric field an image.
\<close>

theorem image_in_rubric_field_counterexample:
  "isSupportedImageExt (getExt (unicodeLower demo_env) (js ''b.png'')) \<and>
   generate demo_env
     (text_request (js ''hello'') [upload_named (js ''a.xyz'') []] [upload_named (js ''b.png'') []]) =
     \<lparr>sent = \<lparr>status = 400, json = Error (ctx_unsupported_message @ js ''a.xyz'')\<rparr>,
      dispatched = []\<rparr> \<and>
   \<not> sublist (js ''b.png'') (ctx_unsupported_message @ js ''a.xyz'')"
  by (simp add: run_defs ctx_unsupported_message_def sublist_Cons_right)

text \<open>
  C6, amended. An attachment with an image extension in the rubric field makes the step
  of the rubric loop answer with status 400 and the text that names the file. A request
  with such an attachment anywhere in the rubric field asks for no completion and gets a
  response with \<open>ok\<close> false and status 400 or 500. When the transcript attachments and the
  rubric attachments before the image are all accepted, the response is the one of that
  step: status 400, naming that file. In the transcript field the same attachment gives
  an image input: a data URL with the MIME type of the extension (\<open>image/png\<close> for
  \<open>png\<close>, \<open>image/webp\<close> for \<open>webp\<close>, \<open>image/jpeg\<close> for \<open>jpg\<close> and \<open>jpeg\<close>) and the
  buffer in base64.
\<close>

theorem image_in_rubric_field:
  assumes "isSupportedImageExt (getExt (unicodeLower e) (originalname f))"
  shows
    "rubricFileStep e f = Inl (Responded 400 (rubric_image_message @ originalname f)) \<and>
     (f \<in> set (rubricFiles req) \<longrightarrow>
        dispatched (generate e req) = [] \<and> \<not> ok (json (sent (generate e req))) \<and>
        (status (sent (generate e req)) = 400 \<or> status (sent (generate e req)) = 500)) \<and>
     (contextFilesLoop e (contextFiles req) [] [] = Inr r \<and>
      rubricFiles req = before @ f # after \<and> rubricFilesLoop e before [] = Inr cs \<longrightarrow>
        generate e req =
          \<lparr>sent = \<lparr>status = 400, json = Error (rubric_image_message @ originalname f)\<rparr>,
           dispatched = []\<rparr>) \<and>
     (getExt (unicodeLower e) (originalname f) = js ''png'' \<longrightarrow>
        contextFileStep e f =
          Inr (ImageInput (js ''data:image/png;base64,'' @ base64_toString e (buffer f)))) \<and>
     (getExt (unicodeLower e) (originalname f) = js ''webp'' \<longrightarrow>
        contextFileStep e f =
          Inr (ImageInput (js ''data:image/webp;base64,'' @ base64_toString e (buffer f)))) \<and>
     (getExt (unicodeLower e) (originalname f) = js ''jpg'' \<or>
      getExt (unicodeLower e) (originalname f) = js ''jpeg'' \<longrightarrow>
        contextFileStep e f =
          Inr (ImageInput (js ''data:image/jpeg;base64,'' @ base64_toString e (buffer f))))"
proof -
  have anywhere: "dispatched (generate e req) = [] \<and> \<not> ok (json (sent (generate e req))) \<and>
        (status (sent (generate e req)) = 400 \<or> status (sent (generate e req)) = 500)"
    if "f \<in> set (rubricFiles req)"
  proof (cases "contextFilesLoop e (contextFiles req) [] []")
    case (Inl a)
    with finish_abort [OF contextFilesLoop_abort [OF Inl]] show ?thesis
      by (simp add: generate_context_abort)
  next
    case (Inr r)
    from rubricFilesLoop_image [OF that assms] obtain a
      where a: "rubricFilesLoop e (rubricFiles req) [] = Inl a"
      by blast
    with finish_abort [OF rubricFilesLoop_abort [OF a]] Inr show ?thesis
      by (simp add: generate_rubric_abort)
  qed
  have reached: "generate e req =
          \<lparr>sent = \<lparr>status = 400, json = Error (rubric_image_message @ originalname f)\<rparr>,
           dispatched = []\<rparr>"
    if "contextFilesLoop e (contextFiles req) [] [] = Inr r"
       "rubricFiles req = before @ f # after" "rubricFilesLoop e before [] = Inr cs"
  proof -
    have "rubricFilesLoop e (rubricFiles req) [] =
        Inl (Responded 400 (rubric_image_message @ originalname f))"
      using that by (simp add: rubricFilesLoop_append step_image(2) [OF assms])
    with that(1) show ?thesis
      by (simp add: generate_rubric_abort finish_def)
  qed
  have mime: "js ''png'' \<noteq> js ''webp''" "js ''jpg'' \<noteq> js ''png''" "js ''jpg'' \<noteq> js ''webp''"
    "js ''jpeg'' \<noteq> js ''png''" "js ''jpeg'' \<noteq> js ''webp''"
    "js ''data:'' @ js ''image/png'' @ js '';base64,'' @ b = js ''data:image/png;base64,'' @ b"
    "js ''data:'' @ js ''image/webp'' @ js '';base64,'' @ b = js ''data:image/webp;base64,'' @ b"
    "js ''data:'' @ js ''image/jpeg'' @ js '';base64,'' @ b = js ''data:image/jpeg;base64,'' @ b"
    for b
    by (simp_all add: js_def)
  show ?thesis
    using anywhere reached mime
    by (auto simp: step_image [OF assms])
qed

theorem image_in_rubric_field_witness:
  "isSupportedImageExt (getExt (unicodeLower demo_env) (originalname (upload_named (js ''b.JPG'') [0]))) \<and>
   upload_named (js ''b.JPG'') [0] \<in>
     set (rubricFiles (text_request (js ''hello'') [upload_named (js ''a.txt'') []]
       [upload_named (js ''r.md'') [], upload_named (js ''b.JPG'') [0]])) \<and>
   contextFilesLoop demo_env
     (contextFiles (text_request (js ''hello'') [upload_named (js ''a.txt'') []]
       [upload_named (js ''r.md'') [], upload_named (js ''b.JPG'') [0]])) [] [] =
     Inr ([ctx_label_text @ js ''a.txt'' @ label_close], []) \<and>
   rubricFilesLoop demo_env [upload_named (js ''r.md'') []] [] =
     Inr [rubric_label_text @ js ''r.md'' @ label_close] \<and>
   generate demo_env (text_request (js ''hello'') [upload_named (js ''a.txt'') []]
       [upload_named (js ''r.md'') [], upload_named (js ''b.JPG'') [0]]) =
     \<lparr>sent = \<lparr>status = 400, json = Error (rubric_image_message @ js ''b.JPG'')\<rparr>,
      dispatched = []\<rparr> \<and>
   getExt (unicodeLower demo_env) (originalname (upload_named (js ''b.JPG'') [0])) = js ''jpg'' \<and>
   contextFileStep demo_env (upload_named (js ''b.JPG'') [0]) =
     Inr (ImageInput (js ''data:image/jpeg;base64,AA==''))"
proof -
  have i: "isSupportedImageExt
      (getExt (unicodeLower demo_env) (originalname (upload_named (js ''b.JPG'') [0])))"
    by (simp add: run_defs)
  show ?thesis
    using image_in_rubric_field [OF i,
        of "text_request (js ''hello'') [upload_named (js ''a.txt'') []]
              [upload_named (js ''r.md'') [], upload_named (js ''b.JPG'') [0]]"
           "([ctx_label_text @ js ''a.txt'' @ label_close], [])"
           "[upload_named (js ''r.md'') []]" "[]"
           "[rubric_label_text @ js ''r.md'' @ label_close]"]
    by (simp add: run_defs)
qed

subsection \<open>The prompt assembler\<close>

lemma GetSubstitution_plain:
  "36 \<notin> set rep \<Longrightarrow> GetSubstitution matched pre post rep = rep"
  by (induction matched pre post rep rule: GetSubstitution.induct) auto

lemma replaceAllFrom_skip:
  "pat \<noteq> [] \<Longrightarrow> (\<forall>i<length u. \<not> prefix pat (drop i u @ rest)) \<Longrightarrow>
   replaceAllFrom pat rep seen (u @ rest) = u @ replaceAllFrom pat rep (seen @ u) rest"
proof (induction u arbitrary: seen)
  case Nil
  then show ?case by simp
next
  case (Cons c u)
  from Cons.prems(2) have here: "\<not> prefix pat ((c # u) @ rest)"
    by (metis drop0 length_greater_0_conv list.distinct(1))
  have later: "\<forall>i<length u. \<not> prefix pat (drop i u @ rest)"
  proof (intro allI impI)
    fix i assume "i < length u"
    then have "Suc i < length (c # u)" by simp
    with Cons.prems(2) have "\<not> prefix pat (drop (Suc i) (c # u) @ rest)" by blast
    then show "\<not> prefix pat (drop i u @ rest)" by simp
  qed
  have "replaceAllFrom pat rep seen ((c # u) @ rest) =
      c # replaceAllFrom pat rep (seen @ [c]) (u @ rest)"
    using here by (subst replaceAllFrom.simps) simp
  also have "\<dots> = c # u @ replaceAllFrom pat rep ((seen @ [c]) @ u) rest"
    using Cons.IH [OF Cons.prems(1) later] by simp
  finally show ?case by simp
qed

lemma replaceAllFrom_end: "pat \<noteq> [] \<Longrightarrow> replaceAllFrom pat rep seen [] = []"
  by (subst replaceAllFrom.simps) simp

lemma replaceAllFrom_match:
  "pat \<noteq> [] \<Longrightarrow>
   replaceAllFrom pat rep seen (pat @ rest) =
     GetSubstitution pat seen rest rep @ replaceAllFrom pat rep (seen @ pat) rest"
  by (subst replaceAllFrom.simps) simp

lemma token_shape: "\<exists>b. token k = 123 # 123 # b \<and> b \<noteq> [] \<and> 123 \<notin> set b"
  by (cases k) (simp_all add: js_def)

lemma token_not_Nil: "token k \<noteq> []"
  using token_shape [of k] by auto

lemma token_no_prefix: "k \<noteq> k' \<Longrightarrow> \<not> prefix (token k) (token k' @ rest)"
  by (cases k; cases k'; simp add: js_def)


lemma prefix_token_head: "prefix (token k) (c # s) \<Longrightarrow> c = 123"
  using token_shape [of k] by auto

lemma literal_no_match:
  assumes "123 \<notin> set l"
  shows "\<forall>i<length l. \<not> prefix (token k) (drop i l @ rest)"
proof (intro allI impI)
  fix i assume i: "i < length l"
  then have d: "drop i l = l ! i # drop (Suc i) l"
    by (simp add: Cons_nth_drop_Suc)
  from i assms have "l ! i \<noteq> 123"
    by (metis nth_mem)
  with d show "\<not> prefix (token k) (drop i l @ rest)"
    using prefix_token_head [of k "l ! i" "drop (Suc i) l @ rest"] by auto
qed

lemma other_token_no_match:
  assumes "k \<noteq> k'"
  shows "\<forall>i<length (token k'). \<not> prefix (token k) (drop i (token k') @ rest)"
proof (intro allI impI)
  fix i assume i: "i < length (token k')"
  obtain b where b: "token k' = 123 # 123 # b" "b \<noteq> []" "123 \<notin> set b"
    using token_shape [of k'] by blast
  obtain a where a: "token k = 123 # 123 # a"
    using token_shape [of k] by blast
  consider "i = 0" | "i = 1" | j where "i = Suc (Suc j)" "j < length b"
    using i b(1) by (cases i; simp; case_tac nat; simp)
  then show "\<not> prefix (token k) (drop i (token k') @ rest)"
  proof cases
    case 1
    with assms show ?thesis by (simp add: token_no_prefix)
  next
    case 2
    from b(2,3) obtain x xs where "b = x # xs" "x \<noteq> 123"
      by (cases b) auto
    with 2 a b(1) show ?thesis by simp
  next
    case 3
    from literal_no_match [OF b(3), of k rest] 3(2)
    have "\<not> prefix (token k) (drop j b @ rest)" by blast
    with 3(1) b(1) show ?thesis by simp
  qed
qed

lemma replaceAllFrom_render:
  assumes "\<forall>l\<in>set (literals segs). 123 \<notin> set l" and "36 \<notin> set v"
  shows "replaceAllFrom (token k) v seen (render segs) = render (map (fill_one k v) segs)"
  using assms(1)
proof (induction segs arbitrary: seen)
  case Nil
  then show ?case by (simp add: replaceAllFrom_end token_not_Nil)
next
  case (Cons s segs)
  show ?case
  proof (cases s)
    case (Literal l)
    with Cons.prems have l: "123 \<notin> set l" and rest: "\<forall>l\<in>set (literals segs). 123 \<notin> set l"
      by simp_all
    from replaceAllFrom_skip [OF token_not_Nil literal_no_match [OF l]] Cons.IH [OF rest] Literal
    show ?thesis by simp
  next
    case (Placeholder k')
    with Cons.prems have rest: "\<forall>l\<in>set (literals segs). 123 \<notin> set l"
      by simp
    show ?thesis
    proof (cases "k' = k")
      case True
      with Placeholder Cons.IH [OF rest] assms(2) show ?thesis
        by (simp add: replaceAllFrom_match token_not_Nil GetSubstitution_plain)
    next
      case False
      then have "k \<noteq> k'" by simp
      from replaceAllFrom_skip [OF token_not_Nil other_token_no_match [OF this]]
        Cons.IH [OF rest] Placeholder False
      show ?thesis by simp
    qed
  qed
qed

lemma literals_fill_one:
  "set (literals (map (fill_one k v) segs)) \<subseteq> insert v (set (literals segs))"
proof (induction segs)
  case Nil
  then show ?case by simp
next
  case (Cons s segs)
  then show ?case by (cases s) auto
qed

lemma substitute_in_order_render:
  assumes "\<forall>k. 36 \<notin> set (field_text p k) \<and> 123 \<notin> set (field_text p k)"
  shows "\<forall>l\<in>set (literals segs). 123 \<notin> set l \<Longrightarrow>
         substitute_in_order ks (render segs) p =
           render (fold (\<lambda>k. map (fill_one k (field_text p k))) ks segs)"
proof (induction ks arbitrary: segs)
  case Nil
  then show ?case by (simp add: substitute_in_order_def)
next
  case (Cons k ks)
  from assms have v: "36 \<notin> set (field_text p k)" "123 \<notin> set (field_text p k)"
    by simp_all
  have lits: "\<forall>l\<in>set (literals (map (fill_one k (field_text p k)) segs)). 123 \<notin> set l"
    using literals_fill_one [of k "field_text p k" segs] Cons.prems v(2) by auto
  have "substitute_in_order (k # ks) (render segs) p =
      substitute_in_order ks (replaceAll (token k) (field_text p k) (render segs)) p"
    by (simp add: substitute_in_order_def)
  also have "\<dots> = substitute_in_order ks (render (map (fill_one k (field_text p k)) segs)) p"
    using replaceAllFrom_render [OF Cons.prems v(1)] by (simp add: replaceAll_def)
  also have "\<dots> = render (fold (\<lambda>k. map (fill_one k (field_text p k))) ks
      (map (fill_one k (field_text p k)) segs))"
    by (rule Cons.IH [OF lits])
  finally show ?case by simp
qed

lemma fold_fill_one:
  "fold (\<lambda>k. map (fill_one k (field_text p k))) ks segs =
     map (\<lambda>s. case s of
            Literal l \<Rightarrow> Literal l
          | Placeholder k \<Rightarrow> if k \<in> set ks then Literal (field_text p k) else Placeholder k) segs"
proof (induction ks arbitrary: segs)
  case Nil
  show ?case by (simp add: list_eq_iff_nth_eq split: segment.splits)
next
  case (Cons k ks)
  show ?case
    by (simp add: Cons.IH) (auto split: segment.splits)
qed

lemma render_all_filled:
  assumes "set ks = UNIV"
  shows "render (map (\<lambda>s. case s of
                  Literal l \<Rightarrow> Literal l
                | Placeholder k \<Rightarrow>
                    if k \<in> set ks then Literal (field_text p k) else Placeholder k) segs) =
         fill p segs"
proof -
  have same: "(\<lambda>s. case s of
                  Literal l \<Rightarrow> Literal l
                | Placeholder k \<Rightarrow>
                    if k \<in> set ks then Literal (field_text p k) else Placeholder k) =
      (\<lambda>s. case s of Literal l \<Rightarrow> Literal l | Placeholder k \<Rightarrow> Literal (field_text p k))"
    using assms by (auto simp: fun_eq_iff split: segment.splits)
  have "render (map (\<lambda>s. case s of Literal l \<Rightarrow> Literal l
                              | Placeholder k \<Rightarrow> Literal (field_text p k)) segs) = fill p segs"
  proof (induction segs)
    case Nil
    then show ?case by simp
  next
    case (Cons s segs)
    then show ?case by (cases s) simp_all
  qed
  with same show ?thesis by simp
qed

lemma buildPrompt_source_order: "buildPrompt template p = substitute_in_order source_order template p"
  by (simp add: buildPrompt_def substitute_in_order_def source_order_def)

lemma substitute_all:
  assumes "\<forall>l\<in>set (literals segs). 123 \<notin> set l"
    and "\<forall>k. 36 \<notin> set (field_text p k) \<and> 123 \<notin> set (field_text p k)"
    and "set ks = UNIV"
  shows "substitute_in_order ks (render segs) p = fill p segs"
  using substitute_in_order_render [OF assms(2) assms(1), of ks] render_all_filled [OF assms(3)]
  by (simp add: fold_fill_one)

lemma source_order_all: "set source_order = UNIV"
proof -
  have "k \<in> set source_order" for k
    by (cases k) (simp_all add: source_order_def)
  then show ?thesis by blast
qed

text \<open>
  C2, as the specification has it, holds for every template and every assignment of
  field texts. \<open>buildPrompt\<close> substitutes one placeholder after the other, so a field
  text that holds the token of a later placeholder is substituted again: with the
  template \<open>{{CONTEXT_DOCUMENTS}}\<close> and the transcript \<open>{{TRAINING_GOAL}}\<close> the prompt
  is the marker of the training goal and not the transcript, while the same calls with
  the first two exchanged give the transcript. And a replacement string is expanded by
  \<^verbatim>\<open>replaceAll\<close>: the transcript \<open>Fee: $$5\<close> comes out as \<open>Fee: $5\<close>. A
  substitution can also complete a token that the template only holds in two parts: in
  the template \<open>{{TRAINING{{CONTEXT_DOCUMENTS}}GOAL}}\<close> the transcript \<open>_\<close> does so, and
  again the two orders differ.
\<close>

theorem buildPrompt_counterexample:
  "contextDocuments (handler_payload (js ''{{TRAINING_GOAL}}'')) = js ''{{TRAINING_GOAL}}'' \<and>
   buildPrompt (js ''{{CONTEXT_DOCUMENTS}}'') (handler_payload (js ''{{TRAINING_GOAL}}'')) =
     trainingGoal_marker \<and>
   substitute_in_order
     [TRAINING_GOAL, CONTEXT_DOCUMENTS, TRAINEE_ROLE, PERSONA_ROLE, SCENARIO_TYPE,
      COACH_ROLE, CUSTOMER_NAME]
     (js ''{{CONTEXT_DOCUMENTS}}'') (handler_payload (js ''{{TRAINING_GOAL}}'')) =
     js ''{{TRAINING_GOAL}}'' \<and>
   trainingGoal_marker \<noteq> js ''{{TRAINING_GOAL}}'' \<and>
   contextDocuments (handler_payload (js ''Fee: $$5'')) = js ''Fee: $$5'' \<and>
   buildPrompt (js ''{{CONTEXT_DOCUMENTS}}'') (handler_payload (js ''Fee: $$5'')) = js ''Fee: $5'' \<and>
   contextDocuments (handler_payload (js ''_'')) = js ''_'' \<and>
   buildPrompt (js ''{{TRAINING{{CONTEXT_DOCUMENTS}}GOAL}}'') (handler_payload (js ''_'')) =
     trainingGoal_marker \<and>
   substitute_in_order
     [TRAINING_GOAL, CONTEXT_DOCUMENTS, TRAINEE_ROLE, PERSONA_ROLE, SCENARIO_TYPE,
      COACH_ROLE, CUSTOMER_NAME]
     (js ''{{TRAINING{{CONTEXT_DOCUMENTS}}GOAL}}'') (handler_payload (js ''_'')) =
     js ''{{TRAINING_GOAL}}''"
  by (simp add: handler_payload_def safe_def trim_def isWhiteSpace_def js_def
      buildPrompt_def substitute_in_order_def replaceAll_def replaceAllFrom.simps
      trainingGoal_marker_def traineeRole_marker_def personaRole_marker_def
      scenarioType_marker_def coachRole_marker_def customerName_marker_def)

text \<open>
  C2, amended. Take a template in which the character \<open>{\<close> (code unit 123) stands only
  at the head of the seven placeholder tokens, that is, a template made of literal pieces
  without \<open>{\<close> and of tokens, and field texts that hold neither \<open>$\<close> (code unit 36)
  nor \<open>{\<close>. Then \<open>buildPrompt\<close> gives the template with every occurrence of every token
  replaced by the text of its field, and the same calls of \<^verbatim>\<open>replaceAll\<close> made in any
  order that covers the seven placeholders give the same result.
\<close>

theorem buildPrompt_substitution:
  assumes "\<forall>l\<in>set (literals segs). 123 \<notin> set l"
    and "\<forall>k. 36 \<notin> set (field_text p k) \<and> 123 \<notin> set (field_text p k)"
  shows "buildPrompt (render segs) p = fill p segs \<and>
         (\<forall>ks. set ks = UNIV \<longrightarrow>
            substitute_in_order ks (render segs) p = buildPrompt (render segs) p)"
  using substitute_all [OF assms] source_order_all
  by (simp add: buildPrompt_source_order)

theorem buildPrompt_substitution_witness:
  "list_all (\<lambda>l. 123 \<notin> set l)
     (literals [Literal (js ''Goal: ''), Placeholder TRAINING_GOAL, Literal (js '' / ''),
        Placeholder CONTEXT_DOCUMENTS, Placeholder TRAINING_GOAL]) \<and>
   (\<forall>k. 36 \<notin> set (field_text
            \<lparr>contextDocuments = js ''cd'', trainingGoal = js ''tg'', traineeRole = js ''tr'',
             personaRole = js ''pr'', scenarioType = js ''st'', coachRole = js ''cr'',
             customerName = js ''cn''\<rparr> k) \<and>
        123 \<notin> set (field_text
            \<lparr>contextDocuments = js ''cd'', trainingGoal = js ''tg'', traineeRole = js ''tr'',
             personaRole = js ''pr'', scenarioType = js ''st'', coachRole = js ''cr'',
             customerName = js ''cn''\<rparr> k)) \<and>
   set (rev source_order) = UNIV \<and>
   render [Literal (js ''Goal: ''), Placeholder TRAINING_GOAL, Literal (js '' / ''),
        Placeholder CONTEXT_DOCUMENTS, Placeholder TRAINING_GOAL] =
     js ''Goal: {{TRAINING_GOAL}} / {{CONTEXT_DOCUMENTS}}{{TRAINING_GOAL}}'' \<and>
   buildPrompt (js ''Goal: {{TRAINING_GOAL}} / {{CONTEXT_DOCUMENTS}}{{TRAINING_GOAL}}'')
     \<lparr>contextDocuments = js ''cd'', trainingGoal = js ''tg'', traineeRole = js ''tr'',
      personaRole = js ''pr'', scenarioType = js ''st'', coachRole = js ''cr'',
      customerName = js ''cn''\<rparr> = js ''Goal: tg / cdtg'' \<and>
   substitute_in_order (rev source_order)
     (js ''Goal: {{TRAINING_GOAL}} / {{CONTEXT_DOCUMENTS}}{{TRAINING_GOAL}}'')
     \<lparr>contextDocuments = js ''cd'', trainingGoal = js ''tg'', traineeRole = js ''tr'',
      personaRole = js ''pr'', scenarioType = js ''st'', coachRole = js ''cr'',
      customerName = js ''cn''\<rparr> = js ''Goal: tg / cdtg''"
proof -
  let ?segs = "[Literal (js ''Goal: ''), Placeholder TRAINING_GOAL, Literal (js '' / ''),
        Placeholder CONTEXT_DOCUMENTS, Placeholder TRAINING_GOAL]"
  let ?p = "\<lparr>contextDocuments = js ''cd'', trainingGoal = js ''tg'', traineeRole = js ''tr'',
      personaRole = js ''pr'', scenarioType = js ''st'', coachRole = js ''cr'',
      customerName = js ''cn''\<rparr>"
  have lits: "\<forall>l\<in>set (literals ?segs). 123 \<notin> set l"
    by (simp add: js_def)
  have texts: "36 \<notin> set (field_text ?p k) \<and> 123 \<notin> set (field_text ?p k)" for k
    by (cases k) (simp_all add: js_def)
  then have all_texts: "\<forall>k. 36 \<notin> set (field_text ?p k) \<and> 123 \<notin> set (field_text ?p k)"
    by blast
  have order: "set (rev source_order) = UNIV"
    by (simp add: source_order_all)
  have r: "render ?segs = js ''Goal: {{TRAINING_GOAL}} / {{CONTEXT_DOCUMENTS}}{{TRAINING_GOAL}}''"
    by (simp add: js_def)
  have f: "fill ?p ?segs = js ''Goal: tg / cdtg''"
    by (simp add: js_def)
  from buildPrompt_substitution [OF lits all_texts] order
  have "buildPrompt (render ?segs) ?p = fill ?p ?segs \<and>
      substitute_in_order (rev source_order) (render ?segs) ?p = fill ?p ?segs"
    by simp
  with lits all_texts order r f show ?thesis
    by (simp add: list_all_iff)
qed

end
